theory Spec2Isabelle
  imports Main
begin

section \<open>JavaScript values used by the bootstrap\<close>

text \<open>
  The bootstrap file \<^verbatim>\<open>bin/bootstrap.js\<close> works on strings, on values that are a
  string or \<^verbatim>\<open>undefined\<close> (paths, positional arguments), and on option values of
  any primitive type. A value that is a string or \<^verbatim>\<open>undefined\<close> is a
  \<^typ>\<open>string option\<close>; an option value is a \<open>jsval\<close>.
\<close>

datatype jsval = Undefined | JBool bool | JNum int | JStr string

fun truthy :: "jsval \<Rightarrow> bool" where
  "truthy Undefined = False"
| "truthy (JBool b) = b"
| "truthy (JNum n) = (n \<noteq> 0)"
| "truthy (JStr s) = (s \<noteq> [])"

definition truthy_str :: "string option \<Rightarrow> bool" where
  "truthy_str p = (case p of None \<Rightarrow> False | Some s \<Rightarrow> s \<noteq> [])"

text \<open>\<^verbatim>\<open>a || b\<close> on values that are a string or undefined.\<close>

definition or_else :: "string option \<Rightarrow> string option \<Rightarrow> string option" where
  "or_else a b = (if truthy_str a then a else b)"

text \<open>String concatenation \<^verbatim>\<open>'...' + v\<close> turns \<^verbatim>\<open>undefined\<close> into its name.\<close>

definition to_str :: "string option \<Rightarrow> string" where
  "to_str p = (case p of None \<Rightarrow> ''undefined'' | Some s \<Rightarrow> s)"

text \<open>\<^verbatim>\<open>Array.prototype.join\<close> turns an \<^verbatim>\<open>undefined\<close> element into the empty string.\<close>

definition join_elem :: "string option \<Rightarrow> string" where
  "join_elem p = (case p of None \<Rightarrow> [] | Some s \<Rightarrow> s)"

fun join_with :: "string \<Rightarrow> string list \<Rightarrow> string" where
  "join_with sep [] = []"
| "join_with sep [x] = x"
| "join_with sep (x # y # ys) = x @ sep @ join_with sep (y # ys)"

text \<open>\<^verbatim>\<open>Array.prototype.pop\<close> on a freshly built array: its last element, or undefined.\<close>

definition pop :: "string option list \<Rightarrow> string option" where
  "pop xs = (if xs = [] then None else last xs)"

text \<open>
  Errors are values. \<open>CasperError\<close> is the custom base error of the file (lines 57-63);
  \<open>TypeError\<close> is what the engine raises on a property access or a call on a value that
  has none; \<open>HostError\<close> stands for whatever a host primitive throws.
\<close>

datatype jserror = CasperError string | TypeError string | HostError string

fun error_toString :: "jserror \<Rightarrow> string" where
  "error_toString (CasperError m) = ''CasperError: '' @ m"
| "error_toString (TypeError m) = ''TypeError: '' @ m"
| "error_toString (HostError m) = m"

text \<open>
  What the process does that can be seen from outside: a line on the error stream, a line
  on the standard stream, a script handed to \<^verbatim>\<open>phantom.injectJs\<close>, a call of
  \<^verbatim>\<open>phantom.exit\<close> with its code.
\<close>

datatype event = ConsoleError string | ConsoleLog string | InjectJs string | PhantomExit nat

text \<open>
  How a piece of the bootstrap ends: it returns with no exit asked for (\<open>Running\<close>), it
  returns after a call of \<^verbatim>\<open>phantom.exit\<close> with a code (\<open>Exited\<close>), or an exception
  leaves it uncaught (\<open>Thrown\<close>). A call of \<^verbatim>\<open>phantom.exit\<close> returns to its caller: the
  code writes \<^verbatim>\<open>return __die(...)\<close> to leave the function it is in, and what follows the
  call of that function still runs.
\<close>

datatype status = Running | Exited nat | Thrown jserror

fun is_thrown :: "status \<Rightarrow> bool" where
  "is_thrown (Thrown e) = True"
| "is_thrown s = False"

text \<open>The status after a further piece that ended with status \<open>s\<close>: the last exit asked for.\<close>

definition later_status :: "status \<Rightarrow> status \<Rightarrow> status" where
  "later_status s0 s = (if s = Running then s0 else s)"

section \<open>The file-system capability and \<^verbatim>\<open>patchFs\<close>\<close>

text \<open>
  The host's \<^verbatim>\<open>fs\<close> module. \<open>own_dirname\<close>, \<open>own_joinPath\<close> and \<open>own_pathJoin\<close> are
  the host's own properties of these names when it has them
  (\<^verbatim>\<open>fs.hasOwnProperty(...)\<close>). \<open>isDirectory\<close> is called inside the only
  \<^verbatim>\<open>try\<close> block that guards host queries, so it may throw.
\<close>

record hostfs =
  separator :: string
  workingDirectory :: "string option"
  isFile :: "string option \<Rightarrow> bool"
  isDirectory :: "string option \<Rightarrow> jserror + bool"
  fs_exists :: "string option \<Rightarrow> bool"
  absolute :: "string option \<Rightarrow> string"
  fs_read :: "string \<Rightarrow> jserror + string"
  own_dirname :: "(string option \<Rightarrow> string option) option"
  own_joinPath :: "(string option list \<Rightarrow> string) option"
  own_pathJoin :: "(string option list \<Rightarrow> string) option"

text \<open>
  \<^verbatim>\<open>s.replace(/\/[^\/]*$/, '')\<close>: the leftmost match starts at the last slash, so the
  last slash and everything after it go; a string with no slash is unchanged.
\<close>

definition strip_last_segment :: "string \<Rightarrow> string" where
  "strip_last_segment s =
     (if CHR ''/'' \<in> set s
      then rev (tl (dropWhile (\<lambda>c. c \<noteq> CHR ''/'') (rev s)))
      else s)"

text \<open>\<^verbatim>\<open>s.replace(/\\/g, '/')\<close>\<close>

definition backslashes_to_slashes :: "string \<Rightarrow> string" where
  "backslashes_to_slashes s = map (\<lambda>c. if c = CHR 0x5C then CHR ''/'' else c) s"

text \<open>The replacement \<^verbatim>\<open>fs.dirname\<close> of \<^verbatim>\<open>patchFs\<close> (lines 124-127).\<close>

definition dirname_polyfill :: "string option \<Rightarrow> string option" where
  "dirname_polyfill path =
     (if \<not> truthy_str path then None
      else Some (strip_last_segment (backslashes_to_slashes (to_str path))))"

text \<open>The replacement \<^verbatim>\<open>fs.pathJoin\<close> of \<^verbatim>\<open>patchFs\<close> (lines 138-140).\<close>

definition pathJoin_polyfill :: "hostfs \<Rightarrow> string option list \<Rightarrow> string" where
  "pathJoin_polyfill fs segs = join_with (separator fs) (map join_elem segs)"

text \<open>
  \<^verbatim>\<open>fs.dirname\<close> and \<^verbatim>\<open>fs.pathJoin\<close> after \<^verbatim>\<open>patchFs\<close> (lines 117-143): the host's
  own \<^verbatim>\<open>dirname\<close> is kept when there is one; \<^verbatim>\<open>joinPath\<close> wins over \<^verbatim>\<open>pathJoin\<close>,
  and the replacement is installed only when the host has neither. (\<^verbatim>\<open>basename\<close> and
  \<^verbatim>\<open>isWindows\<close> are patched too and used nowhere in the file.)
\<close>

definition dirname :: "hostfs \<Rightarrow> string option \<Rightarrow> string option" where
  "dirname fs path =
     (case own_dirname fs of Some d \<Rightarrow> d path | None \<Rightarrow> dirname_polyfill path)"

definition pathJoin :: "hostfs \<Rightarrow> string option list \<Rightarrow> string" where
  "pathJoin fs segs =
     (case own_joinPath fs of
        Some j \<Rightarrow> j segs
      | None \<Rightarrow>
          (case own_pathJoin fs of
             Some j \<Rightarrow> j segs
           | None \<Rightarrow> pathJoin_polyfill fs segs))"

section \<open>The \<^verbatim>\<open>phantom\<close> object\<close>

text \<open>
  The parsed arguments, \<^verbatim>\<open>{options, args}\<close>, produced by the \<^verbatim>\<open>cli\<close> module.
\<close>

record casper_args =
  options :: "string \<rightharpoonup> jsval"
  args :: "string list"

record casper_version =
  major :: int
  minor :: int
  patch :: int
  ident :: string

record phantom_version =
  pv_major :: int
  pv_minor :: int
  pv_patch :: int

record phantom =
  phantom_args :: "string list"
  version :: phantom_version
  casperLoaded :: bool
  casperPath :: "string option"
  casperScript :: "string option"
  casperScriptBaseDir :: "string option"
  casperTest :: bool
  casperSelfTest :: bool
  casperVersion :: "casper_version option"
  casperArgs :: "casper_args option"

section \<open>The module resolver: \<^verbatim>\<open>patchRequire\<close> (lines 181-219)\<close>

text \<open>
  A module loader is a function object: what a call does, and the properties
  \<^verbatim>\<open>cache\<close>, \<^verbatim>\<open>extensions\<close>, \<^verbatim>\<open>stubs\<close> and \<^verbatim>\<open>patched\<close>. The three registries
  are references: an object is its address. A call reads the \<^verbatim>\<open>phantom\<close> object of the
  moment of the call, since the patched loader reads \<^verbatim>\<open>phantom.casperPath\<close> and
  \<^verbatim>\<open>phantom.casperScriptBaseDir\<close> at each request.
\<close>

datatype jsref = RUndefined | RObject nat

record 'm loader =
  call :: "phantom \<Rightarrow> string \<Rightarrow> jserror + 'm"
  cache :: jsref
  extensions :: jsref
  stubs :: jsref
  patched :: jsval

definition casperBuiltinPath :: "hostfs \<Rightarrow> phantom \<Rightarrow> string \<Rightarrow> string option" where
  "casperBuiltinPath fs ph path =
     (let absPath = pathJoin fs [casperPath ph, Some ''modules'', Some (path @ ''.js'')]
      in if isFile fs (Some absPath) then Some absPath else None)"

definition localModulePath :: "hostfs \<Rightarrow> phantom \<Rightarrow> string \<Rightarrow> string option" where
  "localModulePath fs ph path =
     (let baseDir = or_else (casperScriptBaseDir ph) (workingDirectory fs);
          paths = [Some (absolute fs (Some (pathJoin fs [baseDir, Some path]))),
                   Some (absolute fs (Some (pathJoin fs [baseDir, Some (path @ ''.js'')])))]
      in pop (filter (isFile fs) paths))"

definition patchedRequire ::
  "hostfs \<Rightarrow> 'm loader \<Rightarrow> phantom \<Rightarrow> string \<Rightarrow> jserror + 'm" where
  "patchedRequire fs require ph path =
     (let moduleFilePath = casperBuiltinPath fs ph path
      in if truthy_str moduleFilePath then call require ph (to_str moduleFilePath)
         else
           (let moduleFilePath = localModulePath fs ph path
            in if truthy_str moduleFilePath then call require ph (to_str moduleFilePath)
               else
                 (case call require ph path of
                    Inr m \<Rightarrow> Inr m
                  | Inl e \<Rightarrow> Inl (CasperError (''Can't find module '' @ path)))))"

definition patchRequire :: "hostfs \<Rightarrow> 'm loader \<Rightarrow> 'm loader" where
  "patchRequire fs require =
     (if truthy (patched require) then require
      else \<lparr> call = patchedRequire fs require,
             cache = cache require,
             extensions = extensions require,
             stubs = stubs require,
             patched = JBool True \<rparr>)"

section \<open>Terminal actions (lines 77-89)\<close>

text \<open>
  \<^verbatim>\<open>__die\<close> prints the message, when there is one, to the error stream and calls
  \<^verbatim>\<open>phantom.exit(1)\<close>; \<^verbatim>\<open>__terminate\<close> prints to the standard stream and calls
  \<^verbatim>\<open>phantom.exit()\<close>, whose code is 0. Both return to their caller.
\<close>

definition die :: "string option \<Rightarrow> event list \<Rightarrow> event list \<times> status" where
  "die message out =
     ((if truthy_str message then out @ [ConsoleError (to_str message)] else out) @ [PhantomExit 1],
      Exited 1)"

definition terminate :: "string option \<Rightarrow> event list \<Rightarrow> event list \<times> status" where
  "terminate message out =
     ((if truthy_str message then out @ [ConsoleLog (to_str message)] else out) @ [PhantomExit 0],
      Exited 0)"

section \<open>Numbers as text\<close>

fun show_nat :: "nat \<Rightarrow> string" where
  "show_nat n =
     (if n < 10 then [''0123456789'' ! n]
      else show_nat (n div 10) @ [''0123456789'' ! (n mod 10)])"

definition show_int :: "int \<Rightarrow> string" where
  "show_int i = (if i < 0 then CHR ''-'' # show_nat (nat (- i)) else show_nat (nat i))"

text \<open>The \<^verbatim>\<open>toString\<close> of the version object (lines 289-295).\<close>

definition version_toString :: "casper_version \<Rightarrow> string" where
  "version_toString v =
     (let version = join_with ''.'' [show_int (major v), show_int (minor v), show_int (patch v)]
      in if ident v \<noteq> [] then join_with ''-'' [version, ident v] else version)"

section \<open>The parsed arguments' accessors\<close>

text \<open>
  Modelled from the spec: the \<^verbatim>\<open>cli\<close> module (\<^verbatim>\<open>modules/cli.js\<close>) that builds the
  parsed arguments and gives them \<^verbatim>\<open>get\<close> and \<^verbatim>\<open>drop\<close> is not in the source tree.
  The spec: \<^verbatim>\<open>get(index|name)\<close> reads a positional by its index or an option by its
  name; \<^verbatim>\<open>drop(token)\<close> removes the token from the positional list, is idempotent,
  keeps the order of the remaining entries, and does nothing when the token is absent.
\<close>

definition cli_get :: "casper_args \<Rightarrow> nat \<Rightarrow> string option" where
  "cli_get ca i = (if i < length (args ca) then Some (args ca ! i) else None)"

definition cli_get_option :: "casper_args \<Rightarrow> string \<Rightarrow> jsval" where
  "cli_get_option ca name = (case options ca name of None \<Rightarrow> Undefined | Some v \<Rightarrow> v)"

definition cli_drop :: "casper_args \<Rightarrow> string option \<Rightarrow> casper_args" where
  "cli_drop ca token = ca\<lparr>args := filter (\<lambda>a. Some a \<noteq> token) (args ca)\<rparr>"

section \<open>The launch planner: \<^verbatim>\<open>initCasperCli\<close> (lines 224-265)\<close>

record cli_state =
  ph :: phantom
  cargs :: casper_args
  out :: "event list"

text \<open>\<^verbatim>\<open>printHelp\<close> (lines 164-171).\<close>

definition printHelp :: "hostfs \<Rightarrow> cli_state \<Rightarrow> cli_state \<times> status" where
  "printHelp fs st =
     (let pv = version (ph st);
          phantomVersion = join_with ''.'' [show_int (pv_major pv), show_int (pv_minor pv), show_int (pv_patch pv)]
      in case casperVersion (ph st) of
           None \<Rightarrow> (st, Thrown (TypeError ''phantom.casperVersion is undefined''))
         | Some cv \<Rightarrow>
             (let headline = ''CasperJS version '' @ version_toString cv @ '' at '' @ to_str (casperPath (ph st))
                               @ '', using PhantomJS version '' @ phantomVersion
              in case fs_read fs (pathJoin fs [casperPath (ph st), Some ''bin'', Some ''usage.txt'']) of
                   Inl e \<Rightarrow> (st, Thrown e)
                 | Inr usage \<Rightarrow>
                     (let r = terminate (Some (join_with [CHR 0x0A] [headline, usage])) (out st)
                      in (st\<lparr>out := fst r\<rparr>, snd r))))"

text \<open>
  The decision table (lines 225-245): the branches are tried in the order of the code and
  the first that applies is taken.
\<close>

definition cliTable :: "hostfs \<Rightarrow> cli_state \<Rightarrow> cli_state \<times> status" where
  "cliTable fs st =
     (let baseTestsPath = pathJoin fs [casperPath (ph st), Some ''tests'']
      in if truthy (cli_get_option (cargs st) ''version'') then
           (case casperVersion (ph st) of
              None \<Rightarrow> (st, Thrown (TypeError ''phantom.casperVersion is undefined''))
            | Some cv \<Rightarrow>
                (let r = terminate (Some (version_toString cv)) (out st)
                 in (st\<lparr>out := fst r\<rparr>, snd r)))
         else if cli_get (cargs st) 0 = Some ''test'' then
           (let ph1 = (ph st)\<lparr>casperScript :=
                        Some (absolute fs (Some (pathJoin fs [Some baseTestsPath, Some ''run.js''])))\<rparr>;
                ph2 = ph1\<lparr>casperTest := True\<rparr>;
                ca1 = cli_drop (cargs st) (Some ''test'');
                ph3 = ph2\<lparr>casperScriptBaseDir := dirname fs (cli_get ca1 0)\<rparr>
            in (st\<lparr>ph := ph3, cargs := ca1\<rparr>, Running))
         else if cli_get (cargs st) 0 = Some ''selftest'' then
           (let ph1 = (ph st)\<lparr>casperScript :=
                        Some (absolute fs (Some (pathJoin fs [Some baseTestsPath, Some ''run.js''])))\<rparr>;
                ph2 = ph1\<lparr>casperTest := True, casperSelfTest := True\<rparr>;
                ca1 = (cargs st)\<lparr>options := (options (cargs st))
                        (''includes'' \<mapsto> JStr (pathJoin fs [Some baseTestsPath, Some ''selftest.js'']))\<rparr>;
                ca2 = (if length (args ca1) \<le> 1
                       then ca1\<lparr>args := args ca1 @ [pathJoin fs [Some baseTestsPath, Some ''suites'']]\<rparr>
                       else ca1);
                ca3 = cli_drop ca2 (Some ''selftest'');
                ph3 = ph2\<lparr>casperScriptBaseDir :=
                        dirname fs (or_else (cli_get ca3 1) (dirname fs (casperScript ph2)))\<rparr>
            in (st\<lparr>ph := ph3, cargs := ca3\<rparr>, Running))
         else if length (args (cargs st)) = 0 \<or> truthy (cli_get_option (cargs st) ''help'') then
           printHelp fs st
         else (st, Running))"

text \<open>After the table (lines 247-264).\<close>

definition postTable :: "hostfs \<Rightarrow> cli_state \<Rightarrow> cli_state \<times> status" where
  "postTable fs st =
     (let ph1 = (if \<not> truthy_str (casperScript (ph st))
                 then (ph st)\<lparr>casperScript := cli_get (cargs st) 0\<rparr>
                 else ph st)
      in if \<not> isFile fs (casperScript ph1) then
           (let r = die (Some (''Unable to open file: '' @ to_str (casperScript ph1))) (out st)
            in (st\<lparr>ph := ph1, out := fst r\<rparr>, snd r))
         else
           (let ph2 = (if \<not> truthy_str (casperScriptBaseDir ph1)
                       then (let scriptDir = dirname fs (casperScript ph1);
                                 scriptDir' = (if scriptDir = casperScript ph1 then Some ''.'' else scriptDir)
                             in ph1\<lparr>casperScriptBaseDir := Some (absolute fs scriptDir')\<rparr>)
                       else ph1)
            in (st\<lparr>ph := ph2, cargs := cli_drop (cargs st) (casperScript ph2)\<rparr>, Running)))"

definition initCasperCli :: "hostfs \<Rightarrow> cli_state \<Rightarrow> cli_state \<times> status" where
  "initCasperCli fs st =
     (case cliTable fs st of
        (st1, Running) \<Rightarrow> postTable fs st1
      | (st1, s) \<Rightarrow> (st1, s))"

section \<open>The version of the package: \<^verbatim>\<open>getCasperVersion\<close> (lines 268-297)\<close>

text \<open>
  Strings are lists of 8-bit characters. The white space that \<^verbatim>\<open>trim\<close> and the
  conversion of a string to a number strip: tab, line feed, vertical tab, form feed,
  carriage return, space and no-break space.
\<close>

definition js_ws :: "char \<Rightarrow> bool" where
  "js_ws c = (c \<in> set [CHR 0x09, CHR 0x0A, CHR 0x0B, CHR 0x0C, CHR 0x0D, CHR 0x20, CHR 0xA0])"

definition js_trim :: "string \<Rightarrow> string" where
  "js_trim s = rev (dropWhile js_ws (rev (dropWhile js_ws s)))"

text \<open>\<^verbatim>\<open>s.split(c)\<close> for a one-character separator: never empty, one part more than separators.\<close>

fun js_split :: "char \<Rightarrow> string \<Rightarrow> string list" where
  "js_split c [] = [[]]"
| "js_split c (x # xs) =
     (if x = c then [] # js_split c xs
      else (case js_split c xs of [] \<Rightarrow> [[x]] | p # ps \<Rightarrow> (x # p) # ps))"

text \<open>
  \<^verbatim>\<open>~~s\<close> on a string: the string becomes a number, the number a signed 32-bit
  integer. The grammar of numeric strings is the language's: optional white space around
  a signed decimal literal (digits, a fraction, an exponent, or \<^verbatim>\<open>Infinity\<close>) or an
  unsigned hexadecimal literal; the empty string is 0; anything else is not a number,
  which becomes 0.
\<close>

definition is_digit :: "char \<Rightarrow> bool" where
  "is_digit c = (c \<in> set ''0123456789'')"

definition is_hex_digit :: "char \<Rightarrow> bool" where
  "is_hex_digit c = (c \<in> set ''0123456789abcdefABCDEF'')"

definition signed_integer :: "string \<Rightarrow> bool" where
  "signed_integer s =
     (case s of
        [] \<Rightarrow> False
      | c # ds \<Rightarrow>
          if c = CHR ''+'' \<or> c = CHR ''-'' then ds \<noteq> [] \<and> list_all is_digit ds
          else list_all is_digit s)"

definition exponent_part_opt :: "string \<Rightarrow> bool" where
  "exponent_part_opt s =
     (case s of
        [] \<Rightarrow> True
      | e # r \<Rightarrow> (e = CHR ''e'' \<or> e = CHR ''E'') \<and> signed_integer r)"

definition unsigned_decimal_literal :: "string \<Rightarrow> bool" where
  "unsigned_decimal_literal s =
     (if s = ''Infinity'' then True
      else
        (let ip = takeWhile is_digit s; r = dropWhile is_digit s
         in case r of
              [] \<Rightarrow> ip \<noteq> []
            | c # r' \<Rightarrow>
                if c = CHR ''.''
                then (ip \<noteq> [] \<or> takeWhile is_digit r' \<noteq> []) \<and> exponent_part_opt (dropWhile is_digit r')
                else ip \<noteq> [] \<and> exponent_part_opt r))"

definition decimal_literal :: "string \<Rightarrow> bool" where
  "decimal_literal s =
     (case s of
        [] \<Rightarrow> False
      | c # r \<Rightarrow>
          if c = CHR ''+'' \<or> c = CHR ''-'' then unsigned_decimal_literal r
          else unsigned_decimal_literal s)"

definition hex_integer_literal :: "string \<Rightarrow> bool" where
  "hex_integer_literal s =
     (case s of
        z # x # ds \<Rightarrow> z = CHR ''0'' \<and> (x = CHR ''x'' \<or> x = CHR ''X'') \<and> ds \<noteq> [] \<and> list_all is_hex_digit ds
      | _ \<Rightarrow> False)"

definition digits_value :: "string \<Rightarrow> int" where
  "digits_value ds = foldl (\<lambda>a c. 10 * a + (int (of_char c) - 48)) 0 ds"

text \<open>A literal that is only a sign and digits, and its value.\<close>

definition plain_integer :: "string \<Rightarrow> int option" where
  "plain_integer s =
     (case s of
        [] \<Rightarrow> None
      | c # r \<Rightarrow>
          if c = CHR ''-'' then (if r \<noteq> [] \<and> list_all is_digit r then Some (- digits_value r) else None)
          else if c = CHR ''+'' then (if r \<noteq> [] \<and> list_all is_digit r then Some (digits_value r) else None)
          else if list_all is_digit s then Some (digits_value s) else None)"

definition to_int32 :: "int \<Rightarrow> int" where
  "to_int32 n = (n + 2 ^ 31) mod 2 ^ 32 - 2 ^ 31"

text \<open>
  An integer literal below \<open>2 ^ 53\<close> in magnitude is a number exactly. Every other numeric
  string goes through the engine's binary floating point, which is not modelled:
  \<open>eng\<close> is the engine's result for it.
\<close>

definition tilde_tilde :: "(string \<Rightarrow> int) \<Rightarrow> string \<Rightarrow> int" where
  "tilde_tilde eng s =
     (let t = js_trim s
      in if t = [] then 0
         else if \<not> (decimal_literal t \<or> hex_integer_literal t) then 0
         else (case plain_integer t of
                 Some n \<Rightarrow> if \<bar>n\<bar> < 2 ^ 53 then to_int32 n else eng t
               | None \<Rightarrow> eng t))"

text \<open>The strings that the conversion reads as a number.\<close>

definition numeric_string :: "string \<Rightarrow> bool" where
  "numeric_string s = (let t = js_trim s in t = [] \<or> decimal_literal t \<or> hex_integer_literal t)"

text \<open>\<^verbatim>\<open>n || 0\<close> on a number.\<close>

definition or_zero :: "int \<Rightarrow> int" where
  "or_zero n = (if n \<noteq> 0 then n else 0)"

text \<open>
  Lines 279-296, on the value of \<^verbatim>\<open>pkg.version\<close>: a value that is not a string has
  no \<^verbatim>\<open>trim\<close>.
\<close>

definition parseVersion :: "(string \<Rightarrow> int) \<Rightarrow> jsval \<Rightarrow> jserror + casper_version" where
  "parseVersion eng v =
     (case v of
        JStr s \<Rightarrow>
          (let parts = js_split CHR ''.'' (js_trim s)
           in if length parts < 3 then Inl (CasperError ''Invalid version number'')
              else
                (let patchPart = js_split CHR ''-'' (parts ! 2)
                 in Inr \<lparr> major = or_zero (tilde_tilde eng (parts ! 0)),
                          minor = or_zero (tilde_tilde eng (parts ! 1)),
                          patch = or_zero (tilde_tilde eng (patchPart ! 0)),
                          ident = (if 1 < length patchPart \<and> patchPart ! 1 \<noteq> []
                                   then patchPart ! 1 else []) \<rparr>))
      | _ \<Rightarrow> Inl (TypeError ''pkg.version.trim is not a function''))"

text \<open>
  What the host gives the initializer besides \<^verbatim>\<open>phantom\<close> and the global loader: the
  \<^verbatim>\<open>fs\<close> module; \<^verbatim>\<open>JSON.parse\<close>, seen through the \<^verbatim>\<open>version\<close> property of its result
  (\<open>None\<close> when the result is \<^verbatim>\<open>null\<close>, which has no properties); the engine's
  conversion of numeric strings; the \<^verbatim>\<open>parse\<close> export of the \<^verbatim>\<open>cli\<close> module; and
  \<^verbatim>\<open>phantom.injectJs\<close>.
\<close>

record 'm host =
  host_fs :: hostfs
  JSON_parse_version :: "string \<Rightarrow> jserror + jsval option"
  int32_of_literal :: "string \<Rightarrow> int"
  cli_parse :: "'m \<Rightarrow> string list \<Rightarrow> jserror + casper_args"
  injectJs :: "string option \<Rightarrow> bool"

definition getCasperVersion :: "'m host \<Rightarrow> string option \<Rightarrow> jserror + casper_version" where
  "getCasperVersion h path =
     (let pkgFile = absolute (host_fs h) (Some (pathJoin (host_fs h) [path, Some ''package.json'']))
      in if \<not> fs_exists (host_fs h) (Some pkgFile)
         then Inl (CasperError (''Cannot find package.json at '' @ pkgFile))
         else
           (case fs_read (host_fs h) pkgFile of
              Inl e \<Rightarrow> Inl (CasperError (''Cannot read package file contents: '' @ error_toString e))
            | Inr content \<Rightarrow>
                (case JSON_parse_version h content of
                   Inl e \<Rightarrow> Inl (CasperError (''Cannot read package file contents: '' @ error_toString e))
                 | Inr None \<Rightarrow> Inl (TypeError ''null has no property version'')
                 | Inr (Some v) \<Rightarrow> parseVersion (int32_of_literal h) v)))"

section \<open>The initializer (lines 66-318)\<close>

text \<open>
  The initializer is the function applied to \<^verbatim>\<open>window\<close> and \<^verbatim>\<open>phantom\<close> at the end of
  the file. The environment checks, the \<^verbatim>\<open>bind\<close> polyfill and the definition of
  \<^verbatim>\<open>CasperError\<close> (lines 35-63) stand before it and are not part of it.
\<close>

text \<open>The required version of the host (lines 91-101): the message to die with, if any.\<close>

definition versionCheck :: "phantom_version \<Rightarrow> string option" where
  "versionCheck v =
     (if pv_major v \<noteq> 1 then Some ''CasperJS needs PhantomJS v1.x''
      else if pv_minor v < 8 then Some ''CasperJS needs at least PhantomJS v1.8 or later.''
      else if pv_minor v = 8 \<and> pv_patch v < 1 then Some ''CasperJS needs at least PhantomJS v1.8.1 or later.''
      else None)"

text \<open>
  The root path (lines 146-159). \<^verbatim>\<open>arg.match(/^--casper-path=(.*)/)\<close>: the group stops
  at the first line terminator. An argument that does not match maps to
  \<^verbatim>\<open>undefined\<close>. \<^verbatim>\<open>filter\<close> asks \<^verbatim>\<open>fs.isDirectory\<close> of each entry in order, and
  \<^verbatim>\<open>pop\<close> takes the last that passed.
\<close>

definition casper_path_arg :: "hostfs \<Rightarrow> string \<Rightarrow> string option" where
  "casper_path_arg fs arg =
     (if take 14 arg = ''--casper-path=''
      then Some (absolute fs (Some (takeWhile (\<lambda>c. c \<noteq> CHR 0x0A \<and> c \<noteq> CHR 0x0D) (drop 14 arg))))
      else None)"

fun filter_dirs :: "hostfs \<Rightarrow> string option list \<Rightarrow> jserror + string option list" where
  "filter_dirs fs [] = Inr []"
| "filter_dirs fs (p # ps) =
     (case isDirectory fs p of
        Inl e \<Rightarrow> Inl e
      | Inr b \<Rightarrow>
          (case filter_dirs fs ps of
             Inl e \<Rightarrow> Inl e
           | Inr r \<Rightarrow> Inr (if b then p # r else r)))"

definition discoverCasperPath :: "hostfs \<Rightarrow> string list \<Rightarrow> jserror + string option" where
  "discoverCasperPath fs as =
     (case filter_dirs fs (map (casper_path_arg fs) as) of
        Inl e \<Rightarrow> Inl e
      | Inr ps \<Rightarrow> Inr (pop ps))"

text \<open>
  The globals and the console. \<open>saved_require\<close> is \<^verbatim>\<open>global.__require\<close>,
  \<open>patchRequire_exported\<close> says that \<^verbatim>\<open>global.patchRequire\<close> is set, \<open>onError_hooked\<close>
  that \<^verbatim>\<open>phantom.onError\<close> is, and \<open>fs_patched\<close> that \<^verbatim>\<open>patchFs\<close> has run on the
  \<^verbatim>\<open>fs\<close> module (lines 117-143), which from then on answers \<^verbatim>\<open>dirname\<close> and
  \<^verbatim>\<open>pathJoin\<close> as defined above.
\<close>

record 'm world =
  phantom_obj :: phantom
  global_require :: "'m loader"
  saved_require :: "'m loader option"
  patchRequire_exported :: bool
  onError_hooked :: bool
  fs_patched :: bool
  console :: "event list"

text \<open>
  Lines 311-317, with the status \<open>s\<close> of what ran before: the flag is set, then the script,
  when there is one, is handed to \<^verbatim>\<open>phantom.injectJs\<close>.
\<close>

definition bootstrap_finish :: "'m host \<Rightarrow> 'm world \<Rightarrow> status \<Rightarrow> 'm world \<times> status" where
  "bootstrap_finish h w s =
     (let w2 = w\<lparr>phantom_obj := (phantom_obj w)\<lparr>casperLoaded := True\<rparr>\<rparr>;
          script = casperScript (phantom_obj w2)
      in if truthy_str script then
           (let w3 = w2\<lparr>console := console w2 @ [InjectJs (to_str script)]\<rparr>
            in if \<not> injectJs h script then
                 (let d = die (Some (''Unable to load script '' @ to_str script @ ''; check file syntax''))
                            (console w3)
                  in (w3\<lparr>console := fst d\<rparr>, snd d))
               else (w3, s))
         else (w2, s))"

text \<open>
  Lines 307-317: the planner when \<^verbatim>\<open>--cli\<close> was given, then the flag and the script.
  Nothing is tested after the call of \<^verbatim>\<open>initCasperCli\<close>: when the planner returned after
  \<^verbatim>\<open>__die\<close> or \<^verbatim>\<open>__terminate\<close> the lines that follow run all the same; only an
  exception leaves the initializer there.
\<close>

definition bootstrap_cli :: "'m host \<Rightarrow> 'm world \<Rightarrow> casper_args \<Rightarrow> 'm world \<times> status" where
  "bootstrap_cli h w ca =
     (let r = (if cli_get_option ca ''cli'' = JBool True
               then initCasperCli (host_fs h) \<lparr>ph = phantom_obj w, cargs = ca, out = console w\<rparr>
               else (\<lparr>ph = phantom_obj w, cargs = ca, out = console w\<rparr>, Running));
          st = fst r;
          w1 = w\<lparr>phantom_obj := (ph st)\<lparr>casperArgs := Some (cargs st)\<rparr>, console := out st\<rparr>
      in if is_thrown (snd r) then (w1, snd r)
         else bootstrap_finish h w1 (snd r))"

text \<open>Lines 299-305: the resolver is installed, then the arguments are parsed.\<close>

definition bootstrap_require :: "'m host \<Rightarrow> 'm world \<Rightarrow> 'm world \<times> status" where
  "bootstrap_require h w =
     (let w1 = w\<lparr>saved_require := Some (global_require w), patchRequire_exported := True\<rparr>;
          w2 = w1\<lparr>global_require := patchRequire (host_fs h) (global_require w1)\<rparr>
      in case call (global_require w2) (phantom_obj w2) ''cli'' of
           Inl e \<Rightarrow> (w2, Thrown e)
         | Inr m \<Rightarrow>
             (case cli_parse h m (phantom_args (phantom_obj w2)) of
                Inl e \<Rightarrow> (w2, Thrown e)
              | Inr ca \<Rightarrow>
                  bootstrap_cli h (w2\<lparr>phantom_obj := (phantom_obj w2)\<lparr>casperArgs := Some ca\<rparr>\<rparr>) ca))"

text \<open>
  Lines 91-101: the version check is a function of its own, so \<^verbatim>\<open>return __die(...)\<close>
  leaves that function only and the initializer goes on after it.
\<close>

definition versionStep :: "'m world \<Rightarrow> 'm world \<times> status" where
  "versionStep w =
     (case versionCheck (version (phantom_obj w)) of
        Some msg \<Rightarrow> (let d = die (Some msg) (console w) in (w\<lparr>console := fst d\<rparr>, snd d))
      | None \<Rightarrow> (w, Running))"

text \<open>
  The initializer: the guard (lines 73-75), the version check, the error hook (line 104),
  \<^verbatim>\<open>patchFs\<close>, the root path (whose \<^verbatim>\<open>catch\<close> does leave the initializer), the package
  version (whose exceptions nothing catches), and the rest.
\<close>

definition bootstrap :: "'m host \<Rightarrow> 'm world \<Rightarrow> 'm world \<times> status" where
  "bootstrap h w =
     (if casperLoaded (phantom_obj w) then (w, Running)
      else
        (let w0 = fst (versionStep w);
             s0 = snd (versionStep w);
             w1 = w0\<lparr>onError_hooked := True, fs_patched := True\<rparr>;
             r = (if \<not> truthy_str (casperPath (phantom_obj w1))
                  then (case discoverCasperPath (host_fs h) (phantom_args (phantom_obj w1)) of
                          Inl e \<Rightarrow> Inl e
                        | Inr p \<Rightarrow> Inr (w1\<lparr>phantom_obj := (phantom_obj w1)\<lparr>casperPath := p\<rparr>\<rparr>))
                  else Inr w1)
         in case r of
              Inl e \<Rightarrow>
                (let d = die (Some ''Couldn't find nor compute phantom.casperPath, exiting.'') (console w1)
                 in (w1\<lparr>console := fst d\<rparr>, snd d))
            | Inr w2 \<Rightarrow>
                (case getCasperVersion h (casperPath (phantom_obj w2)) of
                   Inl e \<Rightarrow> (w2, Thrown e)
                 | Inr v \<Rightarrow>
                     (let r2 = bootstrap_require h
                                 (w2\<lparr>phantom_obj := (phantom_obj w2)\<lparr>casperVersion := Some v\<rparr>\<rparr>)
                      in (fst r2, later_status s0 (snd r2))))))"

section \<open>Concrete hosts for the examples\<close>

text \<open>
  A small file system given by the lists of its files and of its directories, with
  \<^verbatim>\<open>/\<close> as separator and \<^verbatim>\<open>/w\<close> as working directory and none of the optional
  properties; a primitive loader that knows the listed paths and exports the path it
  loaded; a \<^verbatim>\<open>phantom\<close> object before the initializer ran.
\<close>

definition ex_fs :: "string list \<Rightarrow> string list \<Rightarrow> hostfs" where
  "ex_fs files dirs =
     \<lparr> separator = ''/'',
       workingDirectory = Some ''/w'',
       isFile = (\<lambda>p. case p of None \<Rightarrow> False | Some s \<Rightarrow> s \<in> set files),
       isDirectory = (\<lambda>p. Inr (case p of None \<Rightarrow> False | Some s \<Rightarrow> s \<in> set dirs)),
       fs_exists = (\<lambda>p. case p of None \<Rightarrow> False | Some s \<Rightarrow> s \<in> set files \<or> s \<in> set dirs),
       absolute = (\<lambda>p. case p of None \<Rightarrow> ''/w/undefined''
                        | Some s \<Rightarrow> if take 1 s = ''/'' then s else if s = ''.'' then ''/w'' else ''/w/'' @ s),
       fs_read = (\<lambda>f. if f \<in> set files then Inr f else Inl (HostError ''Unable to open file'')),
       own_dirname = None,
       own_joinPath = None,
       own_pathJoin = None \<rparr>"

definition ex_loader :: "string list \<Rightarrow> string loader" where
  "ex_loader mods =
     \<lparr> call = (\<lambda>p path. if path \<in> set mods then Inr path else Inl (HostError (''Cannot find module '' @ path))),
       cache = RObject 1,
       extensions = RObject 2,
       stubs = RUndefined,
       patched = Undefined \<rparr>"

definition ex_phantom :: "string list \<Rightarrow> string option \<Rightarrow> phantom" where
  "ex_phantom as root =
     \<lparr> phantom_args = as,
       version = \<lparr> pv_major = 1, pv_minor = 9, pv_patch = 0 \<rparr>,
       casperLoaded = False,
       casperPath = root,
       casperScript = None,
       casperScriptBaseDir = None,
       casperTest = False,
       casperSelfTest = False,
       casperVersion = None,
       casperArgs = None \<rparr>"

definition ex_state :: "string list \<Rightarrow> (string \<rightharpoonup> jsval) \<Rightarrow> string option \<Rightarrow> cli_state" where
  "ex_state as opts root =
     \<lparr> ph = ex_phantom as root, cargs = \<lparr> options = opts, args = as \<rparr>, out = [] \<rparr>"

text \<open>A host around the file system, and the globals before the initializer ran.\<close>

definition ex_host :: "string list \<Rightarrow> string list \<Rightarrow> string host" where
  "ex_host files dirs =
     \<lparr> host_fs = ex_fs files dirs,
       JSON_parse_version = (\<lambda>content. Inr (Some (JStr ''1.1.0-DEV''))),
       int32_of_literal = (\<lambda>t. 0),
       cli_parse = (\<lambda>m as. Inr \<lparr> options = (if ''--cli'' \<in> set as then [''cli'' \<mapsto> JBool True] else Map.empty),
                                  args = filter (\<lambda>a. take 2 a \<noteq> ''--'') as \<rparr>),
       injectJs = (\<lambda>script. isFile (ex_fs files dirs) script) \<rparr>"

definition ex_world :: "string list \<Rightarrow> string option \<Rightarrow> string list \<Rightarrow> string world" where
  "ex_world as root mods =
     \<lparr> phantom_obj = ex_phantom as root,
       global_require = ex_loader mods,
       saved_require = None,
       patchRequire_exported = False,
       onError_hooked = False,
       fs_patched = False,
       console = [] \<rparr>"

section \<open>The resolver: precedence and failure\<close>

lemma localModulePath_cases:
  "localModulePath f p n =
     (let baseDir = or_else (casperScriptBaseDir p) (workingDirectory f);
          bare = absolute f (Some (pathJoin f [baseDir, Some n]));
          js = absolute f (Some (pathJoin f [baseDir, Some (n @ ''.js'')]))
      in if isFile f (Some js) then Some js else if isFile f (Some bare) then Some bare else None)"
  by (simp add: localModulePath_def pop_def Let_def)

text \<open>
  Claim C1. When the builtin file \<^verbatim>\<open><RootPath>/modules/<n>.js\<close> is a file, the patched
  loader returns what the primitive loader returns for that path, whatever the script
  base directory \<open>b\<close> and the working directory \<open>wd\<close> are and whatever local candidates
  exist. (No file system has a file at the empty path; the code tests the path for
  truthiness.)
\<close>

theorem builtin_tier_wins:
  assumes "isFile f (Some (pathJoin f [casperPath p, Some ''modules'', Some (n @ ''.js'')]))"
      and "\<not> isFile f (Some [])"
  shows "patchedRequire (f\<lparr>workingDirectory := wd\<rparr>) r (p\<lparr>casperScriptBaseDir := b\<rparr>) n
         = call r (p\<lparr>casperScriptBaseDir := b\<rparr>) (pathJoin f [casperPath p, Some ''modules'', Some (n @ ''.js'')])"
  using assms
  by (auto simp: patchedRequire_def casperBuiltinPath_def Let_def truthy_str_def to_str_def pathJoin_def pathJoin_polyfill_def split: option.splits)


theorem builtin_tier_wins_witness:
  "isFile (ex_fs [''/r/modules/utils.js'', ''/w/utils.js''] []) (Some ''/r/modules/utils.js'')
   \<and> isFile (ex_fs [''/r/modules/utils.js'', ''/w/utils.js''] []) (Some ''/w/utils.js'')
   \<and> patchedRequire ((ex_fs [''/r/modules/utils.js'', ''/w/utils.js''] [])\<lparr>workingDirectory := Some ''/elsewhere''\<rparr>)
         (ex_loader [''/r/modules/utils.js'', ''/w/utils.js''])
         ((ex_phantom [] (Some ''/r''))\<lparr>casperScriptBaseDir := Some ''/w''\<rparr>) ''utils''
       = Inr ''/r/modules/utils.js''"
proof -
  let ?F = "ex_fs [''/r/modules/utils.js'', ''/w/utils.js''] []"
  let ?P = "ex_phantom [] (Some ''/r'')"
  let ?R = "ex_loader [''/r/modules/utils.js'', ''/w/utils.js'']"
  have j: "pathJoin ?F [casperPath ?P, Some ''modules'', Some (''utils'' @ ''.js'')] = ''/r/modules/utils.js''"
    by (simp add: ex_fs_def ex_phantom_def pathJoin_def pathJoin_polyfill_def join_elem_def)
  have h1: "isFile ?F (Some (pathJoin ?F [casperPath ?P, Some ''modules'', Some (''utils'' @ ''.js'')]))"
    unfolding j by (simp add: ex_fs_def)
  have h2: "\<not> isFile ?F (Some [])"
    by (simp add: ex_fs_def)
  have h3: "isFile ?F (Some ''/w/utils.js'')"
    by (simp add: ex_fs_def)
  have c: "call ?R ((ex_phantom [] (Some ''/r''))\<lparr>casperScriptBaseDir := Some ''/w''\<rparr>) ''/r/modules/utils.js''
             = Inr ''/r/modules/utils.js''"
    by (simp add: ex_loader_def)
  have "patchedRequire (?F\<lparr>workingDirectory := Some ''/elsewhere''\<rparr>) ?R (?P\<lparr>casperScriptBaseDir := Some ''/w''\<rparr>) ''utils''
          = Inr ''/r/modules/utils.js''"
    using builtin_tier_wins [OF h1 h2, of "Some ''/elsewhere''" ?R "Some ''/w''"] unfolding j c .
  with h1 h3 show ?thesis unfolding j by blast
qed

text \<open>
  Claim C2. \<^verbatim>\<open>patchRequire\<close> returns a loader that is marked as patched unchanged; from
  an unpatched loader it builds the patched function, which carries the loader's
  \<^verbatim>\<open>cache\<close>, \<^verbatim>\<open>extensions\<close> and \<^verbatim>\<open>stubs\<close> references and is marked as patched, so a
  second installation returns the same patched function with the same references.
\<close>

theorem patchRequire_idempotent:
  "(truthy (patched r) \<longrightarrow> patchRequire f r = r)
   \<and> (\<not> truthy (patched r) \<longrightarrow>
        call (patchRequire f r) = patchedRequire f r
        \<and> cache (patchRequire f r) = cache r
        \<and> extensions (patchRequire f r) = extensions r
        \<and> stubs (patchRequire f r) = stubs r
        \<and> patched (patchRequire f r) = JBool True
        \<and> patchRequire f' (patchRequire f r) = patchRequire f r
        \<and> cache (patchRequire f' (patchRequire f r)) = cache r
        \<and> extensions (patchRequire f' (patchRequire f r)) = extensions r
        \<and> stubs (patchRequire f' (patchRequire f r)) = stubs r)"
  by (simp add: patchRequire_def)

theorem patchRequire_idempotent_witness:
  "\<not> truthy (patched (ex_loader [])) 
   \<and> truthy (patched (patchRequire (ex_fs [] []) (ex_loader [])))
   \<and> patchRequire (ex_fs [''/x''] []) (patchRequire (ex_fs [] []) (ex_loader [])) = patchRequire (ex_fs [] []) (ex_loader [])
   \<and> cache (patchRequire (ex_fs [] []) (ex_loader [])) = RObject 1
   \<and> extensions (patchRequire (ex_fs [] []) (ex_loader [])) = RObject 2
   \<and> stubs (patchRequire (ex_fs [] []) (ex_loader [])) = RUndefined"
  using patchRequire_idempotent [of "ex_loader []" "ex_fs [] []" "ex_fs [''/x''] []"]
        patchRequire_idempotent [of "patchRequire (ex_fs [] []) (ex_loader [])" "ex_fs [''/x''] []" "ex_fs [''/x''] []"]
  by (simp add: ex_loader_def)

text \<open>
  Claim C3, as amended. With no builtin file, when both local candidates
  \<^verbatim>\<open><baseDir>/<n>\<close> and \<^verbatim>\<open><baseDir>/<n>.js\<close> are files, resolution selects the candidate
  with the extension: the candidates are listed bare name first, then name and
  \<^verbatim>\<open>.js\<close>, the existing ones are kept in that order, and \<^verbatim>\<open>pop\<close> takes the last.
\<close>

theorem local_last_existing_wins:
  assumes "\<not> isFile f (Some (pathJoin f [casperPath p, Some ''modules'', Some (n @ ''.js'')]))"
      and "isFile f (Some (absolute f (Some (pathJoin f [or_else (casperScriptBaseDir p) (workingDirectory f), Some n]))))"
      and "isFile f (Some (absolute f (Some (pathJoin f [or_else (casperScriptBaseDir p) (workingDirectory f), Some (n @ ''.js'')]))))"
      and "\<not> isFile f (Some [])"
  shows "localModulePath f p n
           = Some (absolute f (Some (pathJoin f [or_else (casperScriptBaseDir p) (workingDirectory f), Some (n @ ''.js'')])))
         \<and> patchedRequire f r p n
           = call r p (absolute f (Some (pathJoin f [or_else (casperScriptBaseDir p) (workingDirectory f), Some (n @ ''.js'')])))"
proof -
  let ?js = "absolute f (Some (pathJoin f [or_else (casperScriptBaseDir p) (workingDirectory f), Some (n @ ''.js'')]))"
  have l: "localModulePath f p n = Some ?js"
    using assms(3) by (simp add: localModulePath_cases Let_def)
  have b: "casperBuiltinPath f p n = None"
    using assms(1) by (simp add: casperBuiltinPath_def Let_def)
  have ne: "?js \<noteq> []"
    using assms(3,4) by auto
  show ?thesis
    using l b ne by (simp add: patchedRequire_def Let_def truthy_str_def to_str_def)
qed

theorem local_last_existing_wins_witness:
  "patchedRequire (ex_fs [''/w/m'', ''/w/m.js''] []) (ex_loader [''/w/m'', ''/w/m.js'']) (ex_phantom [] (Some ''/r'')) ''m''
     = Inr ''/w/m.js''"
proof -
  let ?F = "ex_fs [''/w/m'', ''/w/m.js''] []"
  let ?P = "ex_phantom [] (Some ''/r'')"
  let ?R = "ex_loader [''/w/m'', ''/w/m.js'']"
  have h1: "\<not> isFile ?F (Some (pathJoin ?F [casperPath ?P, Some ''modules'', Some (''m'' @ ''.js'')]))"
    by (simp add: ex_fs_def ex_phantom_def pathJoin_def pathJoin_polyfill_def join_elem_def)
  have j1: "absolute ?F (Some (pathJoin ?F [or_else (casperScriptBaseDir ?P) (workingDirectory ?F), Some ''m''])) = ''/w/m''"
    by (simp add: ex_fs_def ex_phantom_def or_else_def truthy_str_def pathJoin_def pathJoin_polyfill_def join_elem_def)
  have j2: "absolute ?F (Some (pathJoin ?F [or_else (casperScriptBaseDir ?P) (workingDirectory ?F), Some (''m'' @ ''.js'')])) = ''/w/m.js''"
    by (simp add: ex_fs_def ex_phantom_def or_else_def truthy_str_def pathJoin_def pathJoin_polyfill_def join_elem_def)
  have h2: "isFile ?F (Some (absolute ?F (Some (pathJoin ?F [or_else (casperScriptBaseDir ?P) (workingDirectory ?F), Some ''m'']))))"
    unfolding j1 by (simp add: ex_fs_def)
  have h3: "isFile ?F (Some (absolute ?F (Some (pathJoin ?F [or_else (casperScriptBaseDir ?P) (workingDirectory ?F), Some (''m'' @ ''.js'')]))))"
    unfolding j2 by (simp add: ex_fs_def)
  have h4: "\<not> isFile ?F (Some [])"
    by (simp add: ex_fs_def)
  have c: "call ?R ?P ''/w/m.js'' = Inr ''/w/m.js''"
    by (simp add: ex_loader_def)
  from local_last_existing_wins [OF h1 h2 h3 h4, of ?R] show ?thesis
    unfolding j2 c by simp
qed

text \<open>
  The claim as stated (the candidate without extension wins) fails: with \<^verbatim>\<open>/w/m\<close> and
  \<^verbatim>\<open>/w/m.js\<close> both files and no builtin \<^verbatim>\<open>m\<close>, the loader is given \<^verbatim>\<open>/w/m.js\<close>.
\<close>

theorem local_both_exist_counterexample:
  "\<not> isFile (ex_fs [''/w/m'', ''/w/m.js''] []) (Some ''/r/modules/m.js'')
   \<and> isFile (ex_fs [''/w/m'', ''/w/m.js''] []) (Some ''/w/m'')
   \<and> isFile (ex_fs [''/w/m'', ''/w/m.js''] []) (Some ''/w/m.js'')
   \<and> pathJoin (ex_fs [''/w/m'', ''/w/m.js''] []) [casperPath (ex_phantom [] (Some ''/r'')), Some ''modules'', Some (''m'' @ ''.js'')] = ''/r/modules/m.js''
   \<and> absolute (ex_fs [''/w/m'', ''/w/m.js''] []) (Some (pathJoin (ex_fs [''/w/m'', ''/w/m.js''] []) [Some ''/w'', Some ''m''])) = ''/w/m''
   \<and> localModulePath (ex_fs [''/w/m'', ''/w/m.js''] []) (ex_phantom [] (Some ''/r'')) ''m'' = Some ''/w/m.js''
   \<and> patchedRequire (ex_fs [''/w/m'', ''/w/m.js''] []) (ex_loader [''/w/m'', ''/w/m.js'']) (ex_phantom [] (Some ''/r'')) ''m''
        = Inr ''/w/m.js''
   \<and> call (ex_loader [''/w/m'', ''/w/m.js'']) (ex_phantom [] (Some ''/r'')) ''/w/m'' = Inr ''/w/m''"
  by (simp add: ex_fs_def ex_loader_def ex_phantom_def patchedRequire_def casperBuiltinPath_def
        localModulePath_def pop_def or_else_def truthy_str_def to_str_def
        pathJoin_def pathJoin_polyfill_def join_elem_def)

text \<open>
  Claim C4. When neither the builtin candidate nor a local candidate is a file and the
  primitive loader throws on the name, the patched loader throws a \<open>CasperError\<close> whose
  message carries the name.
\<close>

theorem fallback_failure_is_CasperError:
  assumes "\<not> isFile f (Some (pathJoin f [casperPath p, Some ''modules'', Some (n @ ''.js'')]))"
      and "\<not> isFile f (Some (absolute f (Some (pathJoin f [or_else (casperScriptBaseDir p) (workingDirectory f), Some n]))))"
      and "\<not> isFile f (Some (absolute f (Some (pathJoin f [or_else (casperScriptBaseDir p) (workingDirectory f), Some (n @ ''.js'')]))))"
      and "call r p n = Inl e"
  shows "patchedRequire f r p n = Inl (CasperError (''Can't find module '' @ n))"
  using assms
  by (simp add: patchedRequire_def casperBuiltinPath_def localModulePath_cases Let_def truthy_str_def)

theorem fallback_failure_is_CasperError_witness:
  "call (ex_loader []) (ex_phantom [] (Some ''/r'')) ''nope'' = Inl (HostError ''Cannot find module nope'')
   \<and> patchedRequire (ex_fs [] []) (ex_loader []) (ex_phantom [] (Some ''/r'')) ''nope''
       = Inl (CasperError ''Can't find module nope'')"
proof -
  let ?F = "ex_fs [] []"
  let ?P = "ex_phantom [] (Some ''/r'')"
  have nf: "\<not> isFile ?F q" for q
    by (simp add: ex_fs_def split: option.splits)
  have c: "call (ex_loader []) ?P ''nope'' = Inl (HostError ''Cannot find module nope'')"
    by (simp add: ex_loader_def)
  have "patchedRequire ?F (ex_loader []) ?P ''nope'' = Inl (CasperError (''Can't find module '' @ ''nope''))"
    by (rule fallback_failure_is_CasperError [OF nf nf nf c])
  with c show ?thesis by simp
qed

section \<open>The planner\<close>

lemma cli_drop_args: "args (cli_drop ca t) = filter (\<lambda>a. Some a \<noteq> t) (args ca)"
  by (simp add: cli_drop_def)

lemma cli_drop_options: "options (cli_drop ca t) = options ca"
  by (simp add: cli_drop_def)

lemma ex_default_table:
  assumes "x \<noteq> ''test''" and "x \<noteq> ''selftest''"
  shows "cliTable (ex_fs files dirs) \<lparr>ph = p, cargs = \<lparr>options = [''cli'' \<mapsto> JBool True], args = [x]\<rparr>, out = []\<rparr>
           = (\<lparr>ph = p, cargs = \<lparr>options = [''cli'' \<mapsto> JBool True], args = [x]\<rparr>, out = []\<rparr>, Running)"
  using assms by (simp add: cliTable_def cli_get_option_def cli_get_def Let_def)

lemma ex_selftest_table:
  "cliTable (ex_fs [] []) (ex_state [''selftest''] Map.empty (Some ''/r''))
     = (\<lparr> ph = (ex_phantom [''selftest''] (Some ''/r''))
                 \<lparr> casperScript := Some ''/r/tests/run.js'', casperTest := True, casperSelfTest := True,
                   casperScriptBaseDir := Some ''/r'' \<rparr>,
           cargs = \<lparr> options = [''includes'' \<mapsto> JStr ''/r/tests/selftest.js''], args = [''/r/tests/suites''] \<rparr>,
           out = [] \<rparr>, Running)"
  by (simp add: cliTable_def ex_fs_def ex_state_def ex_phantom_def cli_get_option_def cli_get_def cli_drop_def
        pathJoin_def pathJoin_polyfill_def join_elem_def dirname_def dirname_polyfill_def or_else_def
        truthy_str_def to_str_def strip_last_segment_def backslashes_to_slashes_def Let_def)

text \<open>
  Claim C5, as amended. When \<^verbatim>\<open>options.version\<close> is not truthy and the first positional
  is \<^verbatim>\<open>selftest\<close>, the table sets the target script to the absolute
  \<^verbatim>\<open><rootPath>/tests/run.js\<close>, sets \<^verbatim>\<open>casperTest\<close> and \<^verbatim>\<open>casperSelfTest\<close>, sets
  \<^verbatim>\<open>options.includes\<close> to \<^verbatim>\<open><rootPath>/tests/selftest.js\<close>, appends
  \<^verbatim>\<open><rootPath>/tests/suites\<close> when there are fewer than two positionals, drops the
  \<^verbatim>\<open>selftest\<close> token, and sets the script base directory to the directory of the
  second remaining positional or, when that positional is absent or empty, to the
  directory of the directory of the run script (the parent of the directory that holds
  \<^verbatim>\<open>run.js\<close>).
\<close>

theorem selftest_plan:
  assumes "\<not> truthy (cli_get_option (cargs st) ''version'')"
      and "cli_get (cargs st) 0 = Some ''selftest''"
  shows "snd (cliTable f st) = Running
    \<and> casperScript (ph (fst (cliTable f st)))
        = Some (absolute f (Some (pathJoin f [Some (pathJoin f [casperPath (ph st), Some ''tests'']), Some ''run.js''])))
    \<and> casperTest (ph (fst (cliTable f st)))
    \<and> casperSelfTest (ph (fst (cliTable f st)))
    \<and> options (cargs (fst (cliTable f st))) ''includes''
        = Some (JStr (pathJoin f [Some (pathJoin f [casperPath (ph st), Some ''tests'']), Some ''selftest.js'']))
    \<and> args (cargs (fst (cliTable f st)))
        = filter (\<lambda>a. a \<noteq> ''selftest'')
            (if length (args (cargs st)) < 2
             then args (cargs st) @ [pathJoin f [Some (pathJoin f [casperPath (ph st), Some ''tests'']), Some ''suites'']]
             else args (cargs st))
    \<and> casperScriptBaseDir (ph (fst (cliTable f st)))
        = dirname f
            (if truthy_str (cli_get (cargs (fst (cliTable f st))) 1)
             then cli_get (cargs (fst (cliTable f st))) 1
             else dirname f (casperScript (ph (fst (cliTable f st)))))"
  using assms
  by (simp add: cliTable_def Let_def cli_drop_args cli_drop_options or_else_def)

theorem selftest_plan_witness:
  "args (cargs (fst (cliTable (ex_fs [] []) (ex_state [''selftest''] Map.empty (Some ''/r''))))) = [''/r/tests/suites'']
   \<and> options (cargs (fst (cliTable (ex_fs [] []) (ex_state [''selftest''] Map.empty (Some ''/r''))))) ''includes''
        = Some (JStr ''/r/tests/selftest.js'')
   \<and> casperScriptBaseDir (ph (fst (cliTable (ex_fs [] []) (ex_state [''selftest''] Map.empty (Some ''/r''))))) = Some ''/r''"
proof -
  let ?F = "ex_fs [] []"
  let ?S = "ex_state [''selftest''] Map.empty (Some ''/r'')"
  have h1: "\<not> truthy (cli_get_option (cargs ?S) ''version'')"
    by (simp add: ex_state_def cli_get_option_def)
  have h2: "cli_get (cargs ?S) 0 = Some ''selftest''"
    by (simp add: ex_state_def cli_get_def)
  have j: "pathJoin ?F [Some (pathJoin ?F [casperPath (ph ?S), Some ''tests'']), Some x] = ''/r/tests/'' @ x" for x
    by (simp add: ex_fs_def ex_state_def ex_phantom_def pathJoin_def pathJoin_polyfill_def join_elem_def)
  have a: "args (cargs ?S) = [''selftest'']"
    by (simp add: ex_state_def)
  have d1: "dirname ?F (Some ''/r/tests/run.js'') = Some ''/r/tests''"
    by (simp add: ex_fs_def dirname_def dirname_polyfill_def
        truthy_str_def to_str_def strip_last_segment_def backslashes_to_slashes_def)
  have d2: "dirname ?F (Some ''/r/tests'') = Some ''/r''"
    by (simp add: ex_fs_def dirname_def dirname_polyfill_def
        truthy_str_def to_str_def strip_last_segment_def backslashes_to_slashes_def)
  have ab: "absolute ?F (Some ''/r/tests/run.js'') = ''/r/tests/run.js''"
    by (simp add: ex_fs_def)
  note t = selftest_plan [OF h1 h2, of ?F, unfolded j a]
  have ar: "args (cargs (fst (cliTable ?F ?S))) = [''/r/tests/suites'']"
    using t by simp
  have g: "cli_get (cargs (fst (cliTable ?F ?S))) 1 = None"
    by (simp add: cli_get_def ar)
  have sc: "casperScript (ph (fst (cliTable ?F ?S))) = Some ''/r/tests/run.js''"
    using t ab by simp
  have "casperScriptBaseDir (ph (fst (cliTable ?F ?S))) = Some ''/r''"
    using t unfolding g sc by (simp add: truthy_str_def d1 d2)
  moreover have "options (cargs (fst (cliTable ?F ?S))) ''includes'' = Some (JStr ''/r/tests/selftest.js'')"
    using t by simp
  ultimately show ?thesis using ar by simp
qed

text \<open>
  The claim as stated (the base directory is the run script's own directory when the
  second positional is absent) fails: for the arguments \<^verbatim>\<open>selftest\<close> alone and the root
  \<^verbatim>\<open>/r\<close>, the run script is \<^verbatim>\<open>/r/tests/run.js\<close>, its directory is \<^verbatim>\<open>/r/tests\<close>, and
  the base directory is \<^verbatim>\<open>/r\<close>.
\<close>

theorem selftest_base_dir_counterexample:
  "cli_get (cargs (ex_state [''selftest''] Map.empty (Some ''/r''))) 0 = Some ''selftest''
   \<and> cli_get (cargs (fst (cliTable (ex_fs [] []) (ex_state [''selftest''] Map.empty (Some ''/r''))))) 1 = None
   \<and> casperScript (ph (fst (cliTable (ex_fs [] []) (ex_state [''selftest''] Map.empty (Some ''/r'')))))
        = Some ''/r/tests/run.js''
   \<and> dirname (ex_fs [] []) (Some ''/r/tests/run.js'') = Some ''/r/tests''
   \<and> casperScriptBaseDir (ph (fst (cliTable (ex_fs [] []) (ex_state [''selftest''] Map.empty (Some ''/r'')))))
        = Some ''/r''
   \<and> casperScriptBaseDir (ph (fst (cliTable (ex_fs [] []) (ex_state [''selftest''] Map.empty (Some ''/r'')))))
        \<noteq> dirname (ex_fs [] []) (Some ''/r/tests/run.js'')"
  unfolding ex_selftest_table
  by (simp add: ex_state_def cli_get_def ex_fs_def dirname_def dirname_polyfill_def
        truthy_str_def to_str_def strip_last_segment_def backslashes_to_slashes_def)

text \<open>
  Claim C6. When the check after the table finds that the target script is not a file,
  the message \<^verbatim>\<open>Unable to open file: <path>\<close> goes to the error stream and
  \<^verbatim>\<open>phantom.exit(1)\<close> is called; the planner returns there, so the positional list is
  left as the table left it (the final drop is not done). What follows the planner's call
  still runs: the loaded flag is set and the script, when its path is not empty, is handed
  to \<^verbatim>\<open>phantom.injectJs\<close>, and when that fails a second message and a second
  \<^verbatim>\<open>phantom.exit(1)\<close> follow. Every exit asked for has code 1, and the global loader,
  the saved loader and the exported \<^verbatim>\<open>patchRequire\<close> stay as they were: no resolver is
  installed afterwards.
\<close>

theorem missing_script_is_fatal:
  assumes "cli_get_option ca ''cli'' = JBool True"
      and "cliTable (host_fs h) \<lparr>ph = phantom_obj w, cargs = ca, out = console w\<rparr> = (st, Running)"
      and "\<not> isFile (host_fs h) (if truthy_str (casperScript (ph st)) then casperScript (ph st) else cli_get (cargs st) 0)"
  shows "postTable (host_fs h) st
           = (st\<lparr>ph := (ph st)\<lparr>casperScript := (if truthy_str (casperScript (ph st)) then casperScript (ph st) else cli_get (cargs st) 0)\<rparr>,
                 out := out st @ [ConsoleError (''Unable to open file: ''
                           @ to_str (if truthy_str (casperScript (ph st)) then casperScript (ph st) else cli_get (cargs st) 0)),
                                  PhantomExit 1]\<rparr>,
              Exited 1)
       \<and> cargs (fst (postTable (host_fs h) st)) = cargs st
       \<and> initCasperCli (host_fs h) \<lparr>ph = phantom_obj w, cargs = ca, out = console w\<rparr> = postTable (host_fs h) st
       \<and> snd (bootstrap_cli h w ca) = Exited 1
       \<and> console (fst (bootstrap_cli h w ca))
           = out st
             @ [ConsoleError (''Unable to open file: ''
                  @ to_str (if truthy_str (casperScript (ph st)) then casperScript (ph st) else cli_get (cargs st) 0)),
                PhantomExit 1]
             @ (if truthy_str (if truthy_str (casperScript (ph st)) then casperScript (ph st) else cli_get (cargs st) 0)
                then InjectJs (to_str (if truthy_str (casperScript (ph st)) then casperScript (ph st) else cli_get (cargs st) 0))
                     # (if injectJs h (if truthy_str (casperScript (ph st)) then casperScript (ph st) else cli_get (cargs st) 0)
                        then []
                        else [ConsoleError (''Unable to load script ''
                                @ to_str (if truthy_str (casperScript (ph st)) then casperScript (ph st) else cli_get (cargs st) 0)
                                @ ''; check file syntax''),
                              PhantomExit 1])
                else [])
       \<and> casperArgs (phantom_obj (fst (bootstrap_cli h w ca))) = Some (cargs st)
       \<and> casperLoaded (phantom_obj (fst (bootstrap_cli h w ca)))
       \<and> global_require (fst (bootstrap_cli h w ca)) = global_require w
       \<and> saved_require (fst (bootstrap_cli h w ca)) = saved_require w
       \<and> patchRequire_exported (fst (bootstrap_cli h w ca)) = patchRequire_exported w"
proof -
  let ?script = "if truthy_str (casperScript (ph st)) then casperScript (ph st) else cli_get (cargs st) 0"
  let ?msg = "''Unable to open file: '' @ to_str ?script"
  let ?st' = "st\<lparr>ph := (ph st)\<lparr>casperScript := ?script\<rparr>, out := out st @ [ConsoleError ?msg, PhantomExit 1]\<rparr>"
  have p: "postTable (host_fs h) st = (?st', Exited 1)"
    using assms(3) by (auto simp: postTable_def Let_def die_def truthy_str_def to_str_def)
  have i: "initCasperCli (host_fs h) \<lparr>ph = phantom_obj w, cargs = ca, out = console w\<rparr> = postTable (host_fs h) st"
    unfolding initCasperCli_def assms(2) by simp
  have b: "bootstrap_cli h w ca
             = bootstrap_finish h (w\<lparr>phantom_obj := (ph ?st')\<lparr>casperArgs := Some (cargs ?st')\<rparr>, console := out ?st'\<rparr>) (Exited 1)"
    unfolding bootstrap_cli_def assms(1) i p by (simp add: Let_def)
  show ?thesis
    unfolding b
    by (simp add: p i bootstrap_finish_def Let_def die_def truthy_str_def to_str_def split: option.splits)
qed

theorem missing_script_is_fatal_witness:
  "snd (bootstrap_cli (ex_host [] []) (ex_world [''--cli'', ''nofile.js''] (Some ''/r'') [])
          \<lparr>options = [''cli'' \<mapsto> JBool True], args = [''nofile.js'']\<rparr>) = Exited 1
   \<and> console (fst (bootstrap_cli (ex_host [] []) (ex_world [''--cli'', ''nofile.js''] (Some ''/r'') [])
          \<lparr>options = [''cli'' \<mapsto> JBool True], args = [''nofile.js'']\<rparr>))
       = [ConsoleError ''Unable to open file: nofile.js'', PhantomExit 1, InjectJs ''nofile.js'',
          ConsoleError ''Unable to load script nofile.js; check file syntax'', PhantomExit 1]
   \<and> casperArgs (phantom_obj (fst (bootstrap_cli (ex_host [] []) (ex_world [''--cli'', ''nofile.js''] (Some ''/r'') [])
          \<lparr>options = [''cli'' \<mapsto> JBool True], args = [''nofile.js'']\<rparr>)))
       = Some \<lparr>options = [''cli'' \<mapsto> JBool True], args = [''nofile.js'']\<rparr>
   \<and> casperLoaded (phantom_obj (fst (bootstrap_cli (ex_host [] []) (ex_world [''--cli'', ''nofile.js''] (Some ''/r'') [])
          \<lparr>options = [''cli'' \<mapsto> JBool True], args = [''nofile.js'']\<rparr>)))
   \<and> global_require (fst (bootstrap_cli (ex_host [] []) (ex_world [''--cli'', ''nofile.js''] (Some ''/r'') [])
          \<lparr>options = [''cli'' \<mapsto> JBool True], args = [''nofile.js'']\<rparr>))
       = global_require (ex_world [''--cli'', ''nofile.js''] (Some ''/r'') [])"
proof -
  let ?H = "ex_host [] []"
  let ?W = "ex_world [''--cli'', ''nofile.js''] (Some ''/r'') []"
  let ?A = "\<lparr>options = [''cli'' \<mapsto> JBool True], args = [''nofile.js'']\<rparr>"
  let ?S = "\<lparr>ph = phantom_obj ?W, cargs = ?A, out = console ?W\<rparr>"
  have f: "host_fs ?H = ex_fs [] []" by (simp add: ex_host_def)
  have c: "console ?W = []" by (simp add: ex_world_def)
  have h1: "cli_get_option ?A ''cli'' = JBool True"
    by (simp add: cli_get_option_def)
  have h2: "cliTable (host_fs ?H) ?S = (?S, Running)"
    unfolding f c by (rule ex_default_table) simp_all
  have s: "(if truthy_str (casperScript (ph ?S)) then casperScript (ph ?S) else cli_get (cargs ?S) 0) = Some ''nofile.js''"
    by (simp add: ex_world_def ex_phantom_def truthy_str_def cli_get_def)
  have h3: "\<not> isFile (host_fs ?H) (if truthy_str (casperScript (ph ?S)) then casperScript (ph ?S) else cli_get (cargs ?S) 0)"
    unfolding s f by (simp add: ex_fs_def)
  have inj: "\<not> injectJs ?H (Some ''nofile.js'')"
    by (simp add: ex_host_def ex_fs_def)
  note t = missing_script_is_fatal [OF h1 h2 h3, unfolded s]
  have "snd (bootstrap_cli ?H ?W ?A) = Exited 1" using t by blast
  moreover have "console (fst (bootstrap_cli ?H ?W ?A))
       = [ConsoleError ''Unable to open file: nofile.js'', PhantomExit 1, InjectJs ''nofile.js'',
          ConsoleError ''Unable to load script nofile.js; check file syntax'', PhantomExit 1]"
    using t c inj by (simp add: to_str_def truthy_str_def)
  moreover have "casperArgs (phantom_obj (fst (bootstrap_cli ?H ?W ?A))) = Some ?A"
    using t by simp
  moreover have "casperLoaded (phantom_obj (fst (bootstrap_cli ?H ?W ?A)))"
    using t by blast
  moreover have "global_require (fst (bootstrap_cli ?H ?W ?A)) = global_require ?W"
    using t by blast
  ultimately show ?thesis by blast
qed

subsection \<open>The directory of a path\<close>

lemma set_strip_last_segment: "set (strip_last_segment t) \<subseteq> set t"
proof (cases "CHR ''/'' \<in> set t")
  case True
  have a: "set (tl xs) \<subseteq> set xs" for xs :: string
    by (cases xs) auto
  have b: "set (dropWhile (\<lambda>c. c \<noteq> CHR ''/'') (rev t)) \<subseteq> set (rev t)"
    by (auto dest: set_dropWhileD)
  have "set (tl (dropWhile (\<lambda>c. c \<noteq> CHR ''/'') (rev t))) \<subseteq> set (rev t)"
    using a [of "dropWhile (\<lambda>c. c \<noteq> CHR ''/'') (rev t)"] b by blast
  then show ?thesis using True by (simp add: strip_last_segment_def)
next
  case False
  then show ?thesis by (simp add: strip_last_segment_def)
qed

lemma length_strip_last_segment:
  assumes "CHR ''/'' \<in> set t"
  shows "length (strip_last_segment t) < length t"
proof -
  let ?d = "dropWhile (\<lambda>c. c \<noteq> CHR ''/'') (rev t)"
  have ne: "?d \<noteq> []" using assms by (simp add: dropWhile_eq_Nil_conv)
  have l1: "length ?d \<le> length (rev t)" by (rule length_dropWhile_le)
  have l2: "0 < length ?d" using ne by simp
  have "length ?d - 1 < length (rev t)" using l1 l2 by linarith
  then have "length ?d - 1 < length t" by simp
  then show ?thesis using assms by (simp add: strip_last_segment_def)
qed

lemma backslash_free: "CHR 0x5C \<notin> set (backslashes_to_slashes s)"
  by (auto simp: backslashes_to_slashes_def)

lemma backslashes_to_slashes_id: "CHR 0x5C \<notin> set s \<Longrightarrow> backslashes_to_slashes s = s"
  by (induction s) (auto simp: backslashes_to_slashes_def)

lemma dirname_polyfill_fixpoint:
  assumes "s \<noteq> []"
  shows "dirname_polyfill (Some s) = Some s \<longleftrightarrow> CHR ''/'' \<notin> set s \<and> CHR 0x5C \<notin> set s"
proof
  assume eq: "dirname_polyfill (Some s) = Some s"
  then have e: "strip_last_segment (backslashes_to_slashes s) = s"
    using assms by (simp add: dirname_polyfill_def truthy_str_def to_str_def)
  have nb: "CHR 0x5C \<notin> set s"
    using set_strip_last_segment [of "backslashes_to_slashes s"] backslash_free [of s] e by auto
  then have "strip_last_segment s = s" using e by (simp add: backslashes_to_slashes_id)
  then have "CHR ''/'' \<notin> set s" using length_strip_last_segment [of s] by auto
  with nb show "CHR ''/'' \<notin> set s \<and> CHR 0x5C \<notin> set s" by simp
next
  assume "CHR ''/'' \<notin> set s \<and> CHR 0x5C \<notin> set s"
  then show "dirname_polyfill (Some s) = Some s"
    using assms by (simp add: dirname_polyfill_def truthy_str_def to_str_def backslashes_to_slashes_id strip_last_segment_def)
qed

text \<open>
  Claim C8. When the table left no (truthy) base directory and the target script is a
  file, the planner sets the base directory to the absolute form of the script's
  directory, with \<^verbatim>\<open>.\<close> in its place exactly when the computed directory equals the
  script path; with the replacement \<^verbatim>\<open>dirname\<close> of \<^verbatim>\<open>patchFs\<close> that is the case exactly
  for a path with no slash and no backslash.
\<close>

theorem base_dir_from_script:
  assumes "cliTable f st = (st1, Running)"
      and "\<not> truthy_str (casperScriptBaseDir (ph st1))"
      and "isFile f (if truthy_str (casperScript (ph st1)) then casperScript (ph st1) else cli_get (cargs st1) 0)"
  shows "snd (initCasperCli f st) = Running
       \<and> casperScript (ph (fst (initCasperCli f st)))
           = (if truthy_str (casperScript (ph st1)) then casperScript (ph st1) else cli_get (cargs st1) 0)
       \<and> casperScriptBaseDir (ph (fst (initCasperCli f st)))
           = Some (absolute f
               (if dirname f (casperScript (ph (fst (initCasperCli f st)))) = casperScript (ph (fst (initCasperCli f st)))
                then Some ''.''
                else dirname f (casperScript (ph (fst (initCasperCli f st))))))
       \<and> (own_dirname f = None \<and> truthy_str (casperScript (ph (fst (initCasperCli f st)))) \<longrightarrow>
            (dirname f (casperScript (ph (fst (initCasperCli f st)))) = casperScript (ph (fst (initCasperCli f st)))
             \<longleftrightarrow> CHR ''/'' \<notin> set (to_str (casperScript (ph (fst (initCasperCli f st)))))
                \<and> CHR 0x5C \<notin> set (to_str (casperScript (ph (fst (initCasperCli f st)))))))"
proof -
  let ?script = "if truthy_str (casperScript (ph st1)) then casperScript (ph st1) else cli_get (cargs st1) 0"
  let ?dir = "if dirname f ?script = ?script then Some ''.'' else dirname f ?script"
  have p: "postTable f st1
             = (st1\<lparr>ph := (ph st1)\<lparr>casperScript := ?script, casperScriptBaseDir := Some (absolute f ?dir)\<rparr>,
                    cargs := cli_drop (cargs st1) ?script\<rparr>, Running)"
    using assms(2,3) by (auto simp: postTable_def Let_def)
  have i: "initCasperCli f st = postTable f st1"
    unfolding initCasperCli_def assms(1) by simp
  have fp: "dirname f (Some s) = Some s \<longleftrightarrow> CHR ''/'' \<notin> set s \<and> CHR 0x5C \<notin> set s"
    if "own_dirname f = None" "s \<noteq> []" for s
    using that dirname_polyfill_fixpoint [of s] by (simp add: dirname_def)
  show ?thesis
    unfolding i p using fp by (auto simp: truthy_str_def to_str_def split: option.splits)
qed

theorem base_dir_from_script_witness:
  "casperScriptBaseDir (ph (fst (initCasperCli (ex_fs [''x.js'', ''/u/y.js''] [])
      \<lparr>ph = ex_phantom [''x.js''] (Some ''/r''), cargs = \<lparr>options = [''cli'' \<mapsto> JBool True], args = [''x.js'']\<rparr>, out = []\<rparr>)))
     = Some ''/w''
   \<and> casperScriptBaseDir (ph (fst (initCasperCli (ex_fs [''x.js'', ''/u/y.js''] [])
      \<lparr>ph = ex_phantom [''/u/y.js''] (Some ''/r''), cargs = \<lparr>options = [''cli'' \<mapsto> JBool True], args = [''/u/y.js'']\<rparr>, out = []\<rparr>)))
     = Some ''/u''"
proof -
  let ?F = "ex_fs [''x.js'', ''/u/y.js''] []"
  have d0: "own_dirname ?F = None" by (simp add: ex_fs_def)
  have ab1: "absolute ?F (Some ''.'') = ''/w''" by (simp add: ex_fs_def)
  have ab2: "absolute ?F (Some ''/u'') = ''/u''" by (simp add: ex_fs_def)
  have dn: "dirname ?F (Some ''/u/y.js'') = Some ''/u''"
    by (simp add: ex_fs_def dirname_def dirname_polyfill_def truthy_str_def to_str_def
          strip_last_segment_def backslashes_to_slashes_def)
  have one: "casperScriptBaseDir (ph (fst (initCasperCli ?F
      \<lparr>ph = ex_phantom [''x.js''] (Some ''/r''), cargs = \<lparr>options = [''cli'' \<mapsto> JBool True], args = [''x.js'']\<rparr>, out = []\<rparr>)))
     = Some ''/w''"
  proof -
    let ?S = "\<lparr>ph = ex_phantom [''x.js''] (Some ''/r''), cargs = \<lparr>options = [''cli'' \<mapsto> JBool True], args = [''x.js'']\<rparr>, out = []\<rparr>"
    have h1: "cliTable ?F ?S = (?S, Running)"
      by (rule ex_default_table) simp_all
    have h2: "\<not> truthy_str (casperScriptBaseDir (ph ?S))"
      by (simp add: ex_phantom_def truthy_str_def)
    have s: "(if truthy_str (casperScript (ph ?S)) then casperScript (ph ?S) else cli_get (cargs ?S) 0) = Some ''x.js''"
      by (simp add: ex_phantom_def truthy_str_def cli_get_def)
    have h3: "isFile ?F (if truthy_str (casperScript (ph ?S)) then casperScript (ph ?S) else cli_get (cargs ?S) 0)"
      unfolding s by (simp add: ex_fs_def)
    note t = base_dir_from_script [OF h1 h2 h3, unfolded s]
    have sc: "casperScript (ph (fst (initCasperCli ?F ?S))) = Some ''x.js''" using t by blast
    have "dirname ?F (Some ''x.js'') = Some ''x.js''"
      using t d0 unfolding sc by (simp add: truthy_str_def to_str_def)
    then show ?thesis using t unfolding sc by (simp add: ab1)
  qed
  have two: "casperScriptBaseDir (ph (fst (initCasperCli ?F
      \<lparr>ph = ex_phantom [''/u/y.js''] (Some ''/r''), cargs = \<lparr>options = [''cli'' \<mapsto> JBool True], args = [''/u/y.js'']\<rparr>, out = []\<rparr>)))
     = Some ''/u''"
  proof -
    let ?S = "\<lparr>ph = ex_phantom [''/u/y.js''] (Some ''/r''), cargs = \<lparr>options = [''cli'' \<mapsto> JBool True], args = [''/u/y.js'']\<rparr>, out = []\<rparr>"
    have h1: "cliTable ?F ?S = (?S, Running)"
      by (rule ex_default_table) simp_all
    have h2: "\<not> truthy_str (casperScriptBaseDir (ph ?S))"
      by (simp add: ex_phantom_def truthy_str_def)
    have s: "(if truthy_str (casperScript (ph ?S)) then casperScript (ph ?S) else cli_get (cargs ?S) 0) = Some ''/u/y.js''"
      by (simp add: ex_phantom_def truthy_str_def cli_get_def)
    have h3: "isFile ?F (if truthy_str (casperScript (ph ?S)) then casperScript (ph ?S) else cli_get (cargs ?S) 0)"
      unfolding s by (simp add: ex_fs_def)
    note t = base_dir_from_script [OF h1 h2 h3, unfolded s]
    have sc: "casperScript (ph (fst (initCasperCli ?F ?S))) = Some ''/u/y.js''" using t by blast
    show ?thesis using t unfolding sc dn by (simp add: ab2)
  qed
  from one two show ?thesis by blast
qed

section \<open>The version of the package\<close>

lemma js_split_nonempty: "js_split c s \<noteq> []"
  by (induction s) (auto split: list.splits)

lemma length_js_split: "length (js_split c s) = Suc (length (filter (\<lambda>x. x = c) s))"
  by (induction s) (auto split: list.splits simp: js_split_nonempty)

lemma tilde_tilde_not_numeric: "\<not> numeric_string s \<Longrightarrow> tilde_tilde eng s = 0"
  by (simp add: numeric_string_def tilde_tilde_def Let_def)

text \<open>
  Claim C10. Once the package file is read and its \<^verbatim>\<open>version\<close> is a string, parsing
  raises \<^verbatim>\<open>Invalid version number\<close> exactly when the trimmed string splits on the dot
  into fewer than three parts, that is, has fewer than two dots. With three parts or more
  no error is raised, and a major, minor or patch component that is not a numeric string
  becomes 0; \<^verbatim>\<open>a.b.c\<close> parses as 0, 0, 0 with the empty ident.
\<close>

theorem invalid_version_number:
  assumes "fs_exists (host_fs h) (Some (absolute (host_fs h) (Some (pathJoin (host_fs h) [path, Some ''package.json'']))))"
      and "fs_read (host_fs h) (absolute (host_fs h) (Some (pathJoin (host_fs h) [path, Some ''package.json'']))) = Inr content"
      and "JSON_parse_version h content = Inr (Some (JStr s))"
  shows "(getCasperVersion h path = Inl (CasperError ''Invalid version number'')
            \<longleftrightarrow> length (js_split CHR ''.'' (js_trim s)) < 3)
       \<and> (length (js_split CHR ''.'' (js_trim s)) < 3
            \<longleftrightarrow> length (filter (\<lambda>c. c = CHR ''.'') (js_trim s)) < 2)
       \<and> (3 \<le> length (js_split CHR ''.'' (js_trim s)) \<longrightarrow>
            (\<exists>v. getCasperVersion h path = Inr v
               \<and> (\<not> numeric_string (js_split CHR ''.'' (js_trim s) ! 0) \<longrightarrow> major v = 0)
               \<and> (\<not> numeric_string (js_split CHR ''.'' (js_trim s) ! 1) \<longrightarrow> minor v = 0)
               \<and> (\<not> numeric_string (js_split CHR ''-'' (js_split CHR ''.'' (js_trim s) ! 2) ! 0) \<longrightarrow> patch v = 0)))"
proof -
  have g: "getCasperVersion h path = parseVersion (int32_of_literal h) (JStr s)"
    using assms by (simp add: getCasperVersion_def Let_def)
  show ?thesis
    unfolding g
    by (auto simp: parseVersion_def Let_def length_js_split or_zero_def tilde_tilde_not_numeric)
qed

theorem invalid_version_number_witness:
  "getCasperVersion ((ex_host [''/r/package.json''] [''/r''])\<lparr>JSON_parse_version := (\<lambda>content. Inr (Some (JStr ''a.b.c'')))\<rparr>) (Some ''/r'')
     = Inr \<lparr>major = 0, minor = 0, patch = 0, ident = []\<rparr>
   \<and> getCasperVersion ((ex_host [''/r/package.json''] [''/r''])\<lparr>JSON_parse_version := (\<lambda>content. Inr (Some (JStr ''1.1'')))\<rparr>) (Some ''/r'')
     = Inl (CasperError ''Invalid version number'')"
proof -
  let ?H = "\<lambda>s. (ex_host [''/r/package.json''] [''/r''])\<lparr>JSON_parse_version := (\<lambda>content. Inr (Some (JStr s)))\<rparr>"
  have p: "absolute (host_fs (?H s)) (Some (pathJoin (host_fs (?H s)) [Some ''/r'', Some ''package.json''])) = ''/r/package.json''" for s
    by (simp add: ex_host_def ex_fs_def pathJoin_def pathJoin_polyfill_def join_elem_def)
  have h1: "fs_exists (host_fs (?H s)) (Some (absolute (host_fs (?H s)) (Some (pathJoin (host_fs (?H s)) [Some ''/r'', Some ''package.json'']))))" for s
    unfolding p by (simp add: ex_host_def ex_fs_def)
  have h2: "fs_read (host_fs (?H s)) (absolute (host_fs (?H s)) (Some (pathJoin (host_fs (?H s)) [Some ''/r'', Some ''package.json'']))) = Inr ''/r/package.json''" for s
    unfolding p by (simp add: ex_host_def ex_fs_def)
  have h3: "JSON_parse_version (?H s) ''/r/package.json'' = Inr (Some (JStr s))" for s
    by simp
  have abc: "js_split CHR ''.'' (js_trim ''a.b.c'') = [''a'', ''b'', ''c'']"
    by (simp add: js_trim_def js_ws_def)
  have two: "js_split CHR ''.'' (js_trim ''1.1'') = [''1'', ''1'']"
    by (simp add: js_trim_def js_ws_def)
  have nn: "\<not> numeric_string ''a''" "\<not> numeric_string ''b''" "\<not> numeric_string ''c''"
    by (simp_all add: numeric_string_def js_trim_def js_ws_def decimal_literal_def unsigned_decimal_literal_def
          hex_integer_literal_def is_digit_def)
  note ta = invalid_version_number [OF h1 h2 h3, of "''a.b.c''", unfolded abc]
  note tb = invalid_version_number [OF h1 h2 h3, of "''1.1''", unfolded two]
  from ta nn obtain v where v: "getCasperVersion (?H ''a.b.c'') (Some ''/r'') = Inr v"
      "major v = 0" "minor v = 0" "patch v = 0"
    by auto
  have "getCasperVersion (?H ''a.b.c'') (Some ''/r'') = parseVersion (int32_of_literal (?H ''a.b.c'')) (JStr ''a.b.c'')"
    using h1 [of "''a.b.c''"] h2 [of "''a.b.c''"] by (simp add: getCasperVersion_def Let_def)
  then have "ident v = []"
    using v(1) unfolding parseVersion_def by (simp add: abc Let_def)
  then have "getCasperVersion (?H ''a.b.c'') (Some ''/r'') = Inr \<lparr>major = 0, minor = 0, patch = 0, ident = []\<rparr>"
    using v by (cases v) simp
  moreover have "getCasperVersion (?H ''1.1'') (Some ''/r'') = Inl (CasperError ''Invalid version number'')"
    using tb by simp
  ultimately show ?thesis by blast
qed

section \<open>The initializer\<close>

text \<open>
  Claim C7. The claim: when the root path is not preset and no \<^verbatim>\<open>--casper-path\<close>
  argument names a directory, the initializer dies (a diagnostic on the error stream, exit
  code 1) before the resolver is installed or a script runs. The code: the filtered list
  is empty, \<^verbatim>\<open>pop\<close> returns \<^verbatim>\<open>undefined\<close> without throwing, the \<^verbatim>\<open>catch\<close> with its
  message \<^verbatim>\<open>Couldn't find nor compute phantom.casperPath, exiting.\<close> is not reached, and
  the initializer goes on with an undefined root. With no file \<^verbatim>\<open>/package.json\<close> it ends
  in an uncaught \<open>CasperError\<close> with nothing printed and no exit; with such a file, and a
  module \<^verbatim>\<open>/modules/cli.js\<close>, it installs the resolver and runs the script.
\<close>

theorem undiscovered_root_not_fatal:
  "discoverCasperPath (ex_fs [] []) [] = Inr None
   \<and> discoverCasperPath (ex_fs [] []) [''--casper-path=/nowhere'', ''--cli'', ''/w/script.js''] = Inr None
   \<and> bootstrap (ex_host [] []) (ex_world [''--casper-path=/nowhere'', ''--cli'', ''/w/script.js''] None [])
       = ((ex_world [''--casper-path=/nowhere'', ''--cli'', ''/w/script.js''] None [])\<lparr>onError_hooked := True, fs_patched := True\<rparr>,
          Thrown (CasperError ''Cannot find package.json at /package.json''))
   \<and> snd (bootstrap (ex_host [''/package.json'', ''/modules/cli.js'', ''/w/script.js''] [])
            (ex_world [''--casper-path=/nowhere'', ''--cli'', ''/w/script.js''] None [''/modules/cli.js''])) = Running
   \<and> casperPath (phantom_obj (fst (bootstrap (ex_host [''/package.json'', ''/modules/cli.js'', ''/w/script.js''] [])
            (ex_world [''--casper-path=/nowhere'', ''--cli'', ''/w/script.js''] None [''/modules/cli.js''])))) = None
   \<and> patched (global_require (fst (bootstrap (ex_host [''/package.json'', ''/modules/cli.js'', ''/w/script.js''] [])
            (ex_world [''--casper-path=/nowhere'', ''--cli'', ''/w/script.js''] None [''/modules/cli.js'']))))
       = JBool True
   \<and> console (fst (bootstrap (ex_host [''/package.json'', ''/modules/cli.js'', ''/w/script.js''] [])
            (ex_world [''--casper-path=/nowhere'', ''--cli'', ''/w/script.js''] None [''/modules/cli.js''])))
       = [InjectJs ''/w/script.js'']"
proof -
  have d0: "discoverCasperPath (ex_fs [] []) [] = Inr None"
    by (simp add: discoverCasperPath_def pop_def)
  have d: "discoverCasperPath (ex_fs [] []) [''--casper-path=/nowhere'', ''--cli'', ''/w/script.js''] = Inr None"
    by (simp add: discoverCasperPath_def casper_path_arg_def ex_fs_def pop_def)
  have b: "bootstrap (ex_host [] []) (ex_world [''--casper-path=/nowhere'', ''--cli'', ''/w/script.js''] None [])
       = ((ex_world [''--casper-path=/nowhere'', ''--cli'', ''/w/script.js''] None [])\<lparr>onError_hooked := True, fs_patched := True\<rparr>,
          Thrown (CasperError ''Cannot find package.json at /package.json''))"
    by (simp add: bootstrap_def versionStep_def versionCheck_def later_status_def ex_host_def ex_world_def ex_phantom_def truthy_str_def
        discoverCasperPath_def casper_path_arg_def ex_fs_def pop_def getCasperVersion_def
        pathJoin_def pathJoin_polyfill_def join_elem_def Let_def)
  have r: "snd (bootstrap (ex_host [''/package.json'', ''/modules/cli.js'', ''/w/script.js''] [])
            (ex_world [''--casper-path=/nowhere'', ''--cli'', ''/w/script.js''] None [''/modules/cli.js''])) = Running"
    by code_simp
  have c: "casperPath (phantom_obj (fst (bootstrap (ex_host [''/package.json'', ''/modules/cli.js'', ''/w/script.js''] [])
            (ex_world [''--casper-path=/nowhere'', ''--cli'', ''/w/script.js''] None [''/modules/cli.js''])))) = None"
    by code_simp
  have q: "patched (global_require (fst (bootstrap (ex_host [''/package.json'', ''/modules/cli.js'', ''/w/script.js''] [])
            (ex_world [''--casper-path=/nowhere'', ''--cli'', ''/w/script.js''] None [''/modules/cli.js'']))))
           = JBool True"
    by code_simp
  have i: "console (fst (bootstrap (ex_host [''/package.json'', ''/modules/cli.js'', ''/w/script.js''] [])
            (ex_world [''--casper-path=/nowhere'', ''--cli'', ''/w/script.js''] None [''/modules/cli.js''])))
       = [InjectJs ''/w/script.js'']"
    by code_simp
  from d0 d b r c q i show ?thesis by blast
qed

lemma cliTable_casperLoaded: "casperLoaded (ph (fst (cliTable f st))) = casperLoaded (ph st)"
  by (simp add: cliTable_def printHelp_def Let_def split: option.splits sum.splits)

lemma postTable_casperLoaded: "casperLoaded (ph (fst (postTable f st))) = casperLoaded (ph st)"
  by (simp add: postTable_def Let_def)

lemma initCasperCli_casperLoaded: "casperLoaded (ph (fst (initCasperCli f st))) = casperLoaded (ph st)"
proof (cases "cliTable f st")
  case (Pair st1 s)
  then have "casperLoaded (ph st1) = casperLoaded (ph st)"
    using cliTable_casperLoaded [of f st] by simp
  then show ?thesis
    using Pair postTable_casperLoaded [of f st1]
    by (cases s) (simp_all add: initCasperCli_def)
qed

lemma cliTable_out: "\<exists>es. out (fst (cliTable f st)) = out st @ es"
  by (simp add: cliTable_def printHelp_def terminate_def Let_def split: option.splits sum.splits)

lemma postTable_out: "\<exists>es. out (fst (postTable f st)) = out st @ es"
  by (simp add: postTable_def die_def Let_def)

lemma initCasperCli_out: "\<exists>es. out (fst (initCasperCli f st)) = out st @ es"
proof (cases "cliTable f st")
  case (Pair st1 s)
  obtain es1 where e1: "out st1 = out st @ es1"
    using cliTable_out [of f st] Pair by auto
  obtain es2 where e2: "out (fst (postTable f st1)) = out st1 @ es2"
    using postTable_out [of f st1] by auto
  show ?thesis
    using Pair e1 e2 by (cases s) (simp_all add: initCasperCli_def)
qed

lemma bootstrap_finish_loaded: "casperLoaded (phantom_obj (fst (bootstrap_finish h w s)))"
  by (simp add: bootstrap_finish_def Let_def die_def)

lemma bootstrap_finish_globals:
  "global_require (fst (bootstrap_finish h w s)) = global_require w
   \<and> saved_require (fst (bootstrap_finish h w s)) = saved_require w
   \<and> onError_hooked (fst (bootstrap_finish h w s)) = onError_hooked w
   \<and> fs_patched (fst (bootstrap_finish h w s)) = fs_patched w
   \<and> patchRequire_exported (fst (bootstrap_finish h w s)) = patchRequire_exported w"
  by (simp add: bootstrap_finish_def Let_def die_def)

lemma bootstrap_finish_console: "\<exists>es. console (fst (bootstrap_finish h w s)) = console w @ es"
  by (simp add: bootstrap_finish_def Let_def die_def)

lemma bootstrap_cli_casperLoaded:
  "casperLoaded (phantom_obj (fst (bootstrap_cli h w ca)))
     \<longleftrightarrow> casperLoaded (phantom_obj w)
          \<or> \<not> (cli_get_option ca ''cli'' = JBool True
                \<and> is_thrown (snd (initCasperCli (host_fs h) \<lparr>ph = phantom_obj w, cargs = ca, out = console w\<rparr>)))"
  using initCasperCli_casperLoaded [of "host_fs h" "\<lparr>ph = phantom_obj w, cargs = ca, out = console w\<rparr>"]
  by (simp add: bootstrap_cli_def Let_def bootstrap_finish_loaded)

lemma bootstrap_cli_globals:
  "global_require (fst (bootstrap_cli h w ca)) = global_require w
   \<and> saved_require (fst (bootstrap_cli h w ca)) = saved_require w
   \<and> onError_hooked (fst (bootstrap_cli h w ca)) = onError_hooked w
   \<and> fs_patched (fst (bootstrap_cli h w ca)) = fs_patched w
   \<and> patchRequire_exported (fst (bootstrap_cli h w ca)) = patchRequire_exported w"
  by (simp add: bootstrap_cli_def Let_def bootstrap_finish_globals)

lemma bootstrap_cli_console: "\<exists>es. console (fst (bootstrap_cli h w ca)) = console w @ es"
proof -
  let ?r = "if cli_get_option ca ''cli'' = JBool True
            then initCasperCli (host_fs h) \<lparr>ph = phantom_obj w, cargs = ca, out = console w\<rparr>
            else (\<lparr>ph = phantom_obj w, cargs = ca, out = console w\<rparr>, Running)"
  let ?w1 = "w\<lparr>phantom_obj := (ph (fst ?r))\<lparr>casperArgs := Some (cargs (fst ?r))\<rparr>, console := out (fst ?r)\<rparr>"
  have "\<exists>es1. out (fst ?r) = console w @ es1"
    using initCasperCli_out [of "host_fs h" "\<lparr>ph = phantom_obj w, cargs = ca, out = console w\<rparr>"]
    by (cases "cli_get_option ca ''cli'' = JBool True") simp_all
  then obtain es1 where e1: "out (fst ?r) = console w @ es1" ..
  obtain es2 where e2: "console (fst (bootstrap_finish h ?w1 (snd ?r))) = console ?w1 @ es2"
    using bootstrap_finish_console [of h ?w1 "snd ?r"] by auto
  have "bootstrap_cli h w ca = (if is_thrown (snd ?r) then (?w1, snd ?r) else bootstrap_finish h ?w1 (snd ?r))"
    by (simp add: bootstrap_cli_def Let_def)
  then show ?thesis
    using e1 e2 by (cases "is_thrown (snd ?r)") simp_all
qed

lemma bootstrap_require_loaded:
  assumes "\<not> casperLoaded (phantom_obj w)"
  shows "casperLoaded (phantom_obj (fst (bootstrap_require h w)))
     \<longleftrightarrow> (\<exists>m ca. call (patchRequire (host_fs h) (global_require w)) (phantom_obj w) ''cli'' = Inr m
           \<and> cli_parse h m (phantom_args (phantom_obj w)) = Inr ca
           \<and> \<not> (cli_get_option ca ''cli'' = JBool True
                 \<and> is_thrown (snd (initCasperCli (host_fs h)
                       \<lparr>ph = (phantom_obj w)\<lparr>casperArgs := Some ca\<rparr>, cargs = ca, out = console w\<rparr>))))"
proof (cases "call (patchRequire (host_fs h) (global_require w)) (phantom_obj w) ''cli''")
  case (Inl e)
  then show ?thesis using assms by (simp add: bootstrap_require_def Let_def)
next
  case m: (Inr m)
  show ?thesis
  proof (cases "cli_parse h m (phantom_args (phantom_obj w))")
    case (Inl e)
    then show ?thesis using assms m by (simp add: bootstrap_require_def Let_def)
  next
    case ca: (Inr ca)
    let ?w2 = "w\<lparr>saved_require := Some (global_require w), patchRequire_exported := True,
                   global_require := patchRequire (host_fs h) (global_require w),
                   phantom_obj := (phantom_obj w)\<lparr>casperArgs := Some ca\<rparr>\<rparr>"
    have b: "bootstrap_require h w = bootstrap_cli h ?w2 ca"
      using m ca by (simp add: bootstrap_require_def Let_def)
    show ?thesis
      unfolding b using assms m ca by (simp add: bootstrap_cli_casperLoaded)
  qed
qed

lemma bootstrap_require_globals:
  assumes "\<not> casperLoaded (phantom_obj w)"
      and "casperLoaded (phantom_obj (fst (bootstrap_require h w)))"
  shows "saved_require (fst (bootstrap_require h w)) = Some (global_require w)
       \<and> global_require (fst (bootstrap_require h w)) = patchRequire (host_fs h) (global_require w)
       \<and> patchRequire_exported (fst (bootstrap_require h w))
       \<and> onError_hooked (fst (bootstrap_require h w)) = onError_hooked w
       \<and> fs_patched (fst (bootstrap_require h w)) = fs_patched w
       \<and> (\<exists>es. console (fst (bootstrap_require h w)) = console w @ es)"
proof -
  from assms bootstrap_require_loaded [OF assms(1), of h]
  obtain m ca where m: "call (patchRequire (host_fs h) (global_require w)) (phantom_obj w) ''cli'' = Inr m"
      and ca: "cli_parse h m (phantom_args (phantom_obj w)) = Inr ca"
    by auto
  let ?w2 = "w\<lparr>saved_require := Some (global_require w), patchRequire_exported := True,
                 global_require := patchRequire (host_fs h) (global_require w),
                 phantom_obj := (phantom_obj w)\<lparr>casperArgs := Some ca\<rparr>\<rparr>"
  have b: "bootstrap_require h w = bootstrap_cli h ?w2 ca"
    using m ca by (simp add: bootstrap_require_def Let_def)
  show ?thesis
    unfolding b using bootstrap_cli_globals [of h ?w2 ca] bootstrap_cli_console [of h ?w2 ca] by simp
qed

lemma versionStep_phantom: "phantom_obj (fst (versionStep w)) = phantom_obj w"
  by (simp add: versionStep_def Let_def split: option.splits)

lemma versionStep_globals:
  "global_require (fst (versionStep w)) = global_require w
   \<and> saved_require (fst (versionStep w)) = saved_require w"
  by (simp add: versionStep_def Let_def split: option.splits)

text \<open>
  Claim C9. When the loaded flag is already set on entry the initializer returns at once:
  the \<^verbatim>\<open>phantom\<close> object, the globals, the marks of the error hook and of \<^verbatim>\<open>patchFs\<close>
  and the console are as they were, so no version check, no patching, no parsing, no
  planning and no script took place. Otherwise the flag is set at the end exactly when
  the run reached line 312: the root path step did not throw, the package version was
  read, the \<^verbatim>\<open>cli\<close> module was loaded through the patched loader and parsed the
  arguments, and the planner (when \<^verbatim>\<open>--cli\<close> was given) returned rather than threw. A
  step that called \<^verbatim>\<open>phantom.exit\<close> (the version check, the planner) has run to its end
  all the same and does not keep the flag from being set. When the flag is set, what the
  version check printed comes first on the console, the error hook and \<^verbatim>\<open>patchFs\<close> are
  in place and the loader is saved and patched; a second run of the initializer then does
  nothing.
\<close>

theorem bootstrap_at_most_once:
  "(casperLoaded (phantom_obj w) \<longrightarrow> bootstrap h w = (w, Running))
   \<and> (\<not> casperLoaded (phantom_obj w) \<longrightarrow>
        (casperLoaded (phantom_obj (fst (bootstrap h w))) \<longleftrightarrow>
           (\<exists>root v m ca.
               (if truthy_str (casperPath (phantom_obj w)) then root = casperPath (phantom_obj w)
                else discoverCasperPath (host_fs h) (phantom_args (phantom_obj w)) = Inr root)
             \<and> getCasperVersion h root = Inr v
             \<and> call (patchRequire (host_fs h) (global_require w))
                   ((phantom_obj w)\<lparr>casperPath := root, casperVersion := Some v\<rparr>) ''cli'' = Inr m
             \<and> cli_parse h m (phantom_args (phantom_obj w)) = Inr ca
             \<and> \<not> (cli_get_option ca ''cli'' = JBool True
                   \<and> is_thrown (snd (initCasperCli (host_fs h)
                         \<lparr>ph = (phantom_obj w)\<lparr>casperPath := root, casperVersion := Some v, casperArgs := Some ca\<rparr>,
                           cargs = ca, out = console (fst (versionStep w))\<rparr>))))))
   \<and> (\<not> casperLoaded (phantom_obj w) \<and> casperLoaded (phantom_obj (fst (bootstrap h w))) \<longrightarrow>
        (\<exists>es. console (fst (bootstrap h w)) = console (fst (versionStep w)) @ es)
      \<and> onError_hooked (fst (bootstrap h w))
      \<and> fs_patched (fst (bootstrap h w))
      \<and> saved_require (fst (bootstrap h w)) = Some (global_require w)
      \<and> global_require (fst (bootstrap h w)) = patchRequire (host_fs h) (global_require w)
      \<and> patchRequire_exported (fst (bootstrap h w))
      \<and> bootstrap h' (fst (bootstrap h w)) = (fst (bootstrap h w), Running))"
proof (intro conjI impI)
  assume "casperLoaded (phantom_obj w)"
  then show "bootstrap h w = (w, Running)" by (simp add: bootstrap_def)
next
  assume nl: "\<not> casperLoaded (phantom_obj w)"
  let ?w0 = "fst (versionStep w)"
  let ?w1 = "?w0\<lparr>onError_hooked := True, fs_patched := True\<rparr>"
  let ?P = "\<lambda>root v m ca.
               (if truthy_str (casperPath (phantom_obj w)) then root = casperPath (phantom_obj w)
                else discoverCasperPath (host_fs h) (phantom_args (phantom_obj w)) = Inr root)
             \<and> getCasperVersion h root = Inr v
             \<and> call (patchRequire (host_fs h) (global_require w))
                   ((phantom_obj w)\<lparr>casperPath := root, casperVersion := Some v\<rparr>) ''cli'' = Inr m
             \<and> cli_parse h m (phantom_args (phantom_obj w)) = Inr ca
             \<and> \<not> (cli_get_option ca ''cli'' = JBool True
                   \<and> is_thrown (snd (initCasperCli (host_fs h)
                         \<lparr>ph = (phantom_obj w)\<lparr>casperPath := root, casperVersion := Some v, casperArgs := Some ca\<rparr>,
                           cargs = ca, out = console (fst (versionStep w))\<rparr>)))"
  show "casperLoaded (phantom_obj (fst (bootstrap h w))) \<longleftrightarrow> (\<exists>root v m ca. ?P root v m ca)"
  proof (cases "\<exists>root. if truthy_str (casperPath (phantom_obj w)) then root = casperPath (phantom_obj w)
                else discoverCasperPath (host_fs h) (phantom_args (phantom_obj w)) = Inr root")
    case False
    then have nt: "\<not> truthy_str (casperPath (phantom_obj w))" by auto
    with False obtain e where "discoverCasperPath (host_fs h) (phantom_args (phantom_obj w)) = Inl e"
      by (cases "discoverCasperPath (host_fs h) (phantom_args (phantom_obj w))") auto
    then have "casperLoaded (phantom_obj (fst (bootstrap h w))) = casperLoaded (phantom_obj w)"
      using nl nt by (simp add: bootstrap_def Let_def die_def versionStep_phantom)
    with nl False show ?thesis by blast
  next
    case True
    then obtain root where root: "if truthy_str (casperPath (phantom_obj w)) then root = casperPath (phantom_obj w)
                else discoverCasperPath (host_fs h) (phantom_args (phantom_obj w)) = Inr root" ..
    have uniq: "root' = root"
      if "if truthy_str (casperPath (phantom_obj w)) then root' = casperPath (phantom_obj w)
          else discoverCasperPath (host_fs h) (phantom_args (phantom_obj w)) = Inr root'" for root'
      using that root by (cases "truthy_str (casperPath (phantom_obj w))") simp_all
    have b1: "bootstrap h w =
                (case getCasperVersion h root of
                   Inl e \<Rightarrow> (?w1\<lparr>phantom_obj := (phantom_obj w)\<lparr>casperPath := root\<rparr>\<rparr>, Thrown e)
                 | Inr v \<Rightarrow>
                     (fst (bootstrap_require h
                        (?w1\<lparr>phantom_obj := (phantom_obj w)\<lparr>casperPath := root, casperVersion := Some v\<rparr>\<rparr>)),
                      later_status (snd (versionStep w)) (snd (bootstrap_require h
                        (?w1\<lparr>phantom_obj := (phantom_obj w)\<lparr>casperPath := root, casperVersion := Some v\<rparr>\<rparr>)))))"
      using nl root
      by (cases "truthy_str (casperPath (phantom_obj w))")
         (simp_all add: bootstrap_def Let_def versionStep_phantom split: sum.splits)
    show ?thesis
    proof (cases "getCasperVersion h root")
      case (Inl e)
      then have "casperLoaded (phantom_obj (fst (bootstrap h w))) = casperLoaded (phantom_obj w)"
        unfolding b1 by simp
      moreover have "\<not> (\<exists>root v m ca. ?P root v m ca)"
        using Inl uniq by auto
      ultimately show ?thesis using nl by blast
    next
      case (Inr v)
      let ?w3 = "?w1\<lparr>phantom_obj := (phantom_obj w)\<lparr>casperPath := root, casperVersion := Some v\<rparr>\<rparr>"
      have b2: "fst (bootstrap h w) = fst (bootstrap_require h ?w3)"
        unfolding b1 using Inr by simp
      have nl3: "\<not> casperLoaded (phantom_obj ?w3)" using nl by simp
      have g3: "global_require ?w3 = global_require w" "console ?w3 = console (fst (versionStep w))"
        by (simp_all add: versionStep_globals)
      have "casperLoaded (phantom_obj (fst (bootstrap h w))) \<longleftrightarrow> (\<exists>m ca. ?P root v m ca)"
        unfolding b2 bootstrap_require_loaded [OF nl3] using root Inr g3 by simp
      moreover have "(\<exists>m ca. ?P root v m ca) \<longleftrightarrow> (\<exists>root v m ca. ?P root v m ca)"
      proof
        assume "\<exists>m ca. ?P root v m ca"
        then show "\<exists>root v m ca. ?P root v m ca" by blast
      next
        assume "\<exists>root v m ca. ?P root v m ca"
        then obtain r' v' m ca where p: "?P r' v' m ca" by blast
        then have r: "r' = root" using uniq by blast
        then have "v' = v" using p Inr by simp
        with r p show "\<exists>m ca. ?P root v m ca" by blast
      qed
      ultimately show ?thesis by simp
    qed
  qed
next
  assume a: "\<not> casperLoaded (phantom_obj w) \<and> casperLoaded (phantom_obj (fst (bootstrap h w)))"
  then have nl: "\<not> casperLoaded (phantom_obj w)" and fl: "casperLoaded (phantom_obj (fst (bootstrap h w)))"
    by simp_all
  let ?w0 = "fst (versionStep w)"
  let ?w1 = "?w0\<lparr>onError_hooked := True, fs_patched := True\<rparr>"
  have "\<exists>w3. fst (bootstrap h w) = fst (bootstrap_require h w3)
           \<and> \<not> casperLoaded (phantom_obj w3)
           \<and> global_require w3 = global_require w
           \<and> onError_hooked w3 \<and> fs_patched w3
           \<and> console w3 = console ?w0"
  proof (cases "truthy_str (casperPath (phantom_obj w))")
    case True
    show ?thesis
    proof (cases "getCasperVersion h (casperPath (phantom_obj w))")
      case (Inl e)
      then have "casperLoaded (phantom_obj (fst (bootstrap h w))) = casperLoaded (phantom_obj w)"
        using nl True by (simp add: bootstrap_def Let_def versionStep_phantom)
      with nl fl show ?thesis by simp
    next
      case (Inr v)
      then have "fst (bootstrap h w)
          = fst (bootstrap_require h (?w1\<lparr>phantom_obj := (phantom_obj w)\<lparr>casperVersion := Some v\<rparr>\<rparr>))"
        using nl True by (simp add: bootstrap_def Let_def versionStep_phantom)
      then show ?thesis
        using nl by (intro exI [of _ "?w1\<lparr>phantom_obj := (phantom_obj w)\<lparr>casperVersion := Some v\<rparr>\<rparr>"])
                    (simp add: versionStep_globals)
    qed
  next
    case False
    show ?thesis
    proof (cases "discoverCasperPath (host_fs h) (phantom_args (phantom_obj w))")
      case (Inl e)
      then have "casperLoaded (phantom_obj (fst (bootstrap h w))) = casperLoaded (phantom_obj w)"
        using nl False by (simp add: bootstrap_def Let_def die_def versionStep_phantom)
      with nl fl show ?thesis by simp
    next
      case root: (Inr root)
      show ?thesis
      proof (cases "getCasperVersion h root")
        case (Inl e)
        then have "casperLoaded (phantom_obj (fst (bootstrap h w))) = casperLoaded (phantom_obj w)"
          using nl False root by (simp add: bootstrap_def Let_def versionStep_phantom)
        with nl fl show ?thesis by simp
      next
        case (Inr v)
        then have "fst (bootstrap h w)
            = fst (bootstrap_require h (?w1\<lparr>phantom_obj := (phantom_obj w)\<lparr>casperPath := root, casperVersion := Some v\<rparr>\<rparr>))"
          using nl False root by (simp add: bootstrap_def Let_def versionStep_phantom)
        then show ?thesis
          using nl by (intro exI [of _ "?w1\<lparr>phantom_obj := (phantom_obj w)\<lparr>casperPath := root, casperVersion := Some v\<rparr>\<rparr>"])
                      (simp add: versionStep_globals)
      qed
    qed
  qed
  then obtain w3 where b: "fst (bootstrap h w) = fst (bootstrap_require h w3)"
      and nl3: "\<not> casperLoaded (phantom_obj w3)"
      and g3: "global_require w3 = global_require w" "onError_hooked w3" "fs_patched w3"
              "console w3 = console ?w0"
    by blast
  have fl3: "casperLoaded (phantom_obj (fst (bootstrap_require h w3)))" using fl b by simp
  note g = bootstrap_require_globals [OF nl3 fl3]
  show "\<exists>es. console (fst (bootstrap h w)) = console (fst (versionStep w)) @ es"
    using g g3 b by simp
  show "onError_hooked (fst (bootstrap h w))" using g g3 b by simp
  show "fs_patched (fst (bootstrap h w))" using g g3 b by simp
  show "saved_require (fst (bootstrap h w)) = Some (global_require w)" using g g3 b by simp
  show "global_require (fst (bootstrap h w)) = patchRequire (host_fs h) (global_require w)" using g g3 b by simp
  show "patchRequire_exported (fst (bootstrap h w))" using g g3 b by simp
  show "bootstrap h' (fst (bootstrap h w)) = (fst (bootstrap h w), Running)"
    using fl by (simp add: bootstrap_def)
qed

theorem bootstrap_at_most_once_witness:
  "\<not> casperLoaded (phantom_obj (ex_world [''--casper-path=/r'', ''--cli'', ''/w/script.js''] None [''/r/modules/cli.js'']))
   \<and> casperLoaded (phantom_obj (fst (bootstrap (ex_host [''/r/package.json'', ''/r/modules/cli.js'', ''/w/script.js''] [''/r''])
          (ex_world [''--casper-path=/r'', ''--cli'', ''/w/script.js''] None [''/r/modules/cli.js'']))))
   \<and> fs_patched (fst (bootstrap (ex_host [''/r/package.json'', ''/r/modules/cli.js'', ''/w/script.js''] [''/r''])
          (ex_world [''--casper-path=/r'', ''--cli'', ''/w/script.js''] None [''/r/modules/cli.js''])))
   \<and> global_require (fst (bootstrap (ex_host [''/r/package.json'', ''/r/modules/cli.js'', ''/w/script.js''] [''/r''])
          (ex_world [''--casper-path=/r'', ''--cli'', ''/w/script.js''] None [''/r/modules/cli.js''])))
       = patchRequire (ex_fs [''/r/package.json'', ''/r/modules/cli.js'', ''/w/script.js''] [''/r''])
           (ex_loader [''/r/modules/cli.js''])
   \<and> bootstrap (ex_host [] [])
         (fst (bootstrap (ex_host [''/r/package.json'', ''/r/modules/cli.js'', ''/w/script.js''] [''/r''])
            (ex_world [''--casper-path=/r'', ''--cli'', ''/w/script.js''] None [''/r/modules/cli.js''])))
       = (fst (bootstrap (ex_host [''/r/package.json'', ''/r/modules/cli.js'', ''/w/script.js''] [''/r''])
            (ex_world [''--casper-path=/r'', ''--cli'', ''/w/script.js''] None [''/r/modules/cli.js''])), Running)
   \<and> casperLoaded (phantom_obj (fst (bootstrap (ex_host [''/r/package.json'', ''/r/modules/cli.js''] [''/r''])
          (ex_world [''--casper-path=/r'', ''--cli'', ''nofile.js''] None [''/r/modules/cli.js'']))))
   \<and> console (fst (bootstrap (ex_host [''/r/package.json'', ''/r/modules/cli.js''] [''/r''])
          (ex_world [''--casper-path=/r'', ''--cli'', ''nofile.js''] None [''/r/modules/cli.js''])))
       = [ConsoleError ''Unable to open file: nofile.js'', PhantomExit 1, InjectJs ''nofile.js'',
          ConsoleError ''Unable to load script nofile.js; check file syntax'', PhantomExit 1]
   \<and> casperLoaded (phantom_obj (fst (bootstrap (ex_host [''/r/package.json'', ''/r/modules/cli.js'', ''/w/script.js''] [''/r''])
          ((ex_world [''--casper-path=/r'', ''--cli'', ''/w/script.js''] None [''/r/modules/cli.js''])
             \<lparr>phantom_obj := (ex_phantom [''--casper-path=/r'', ''--cli'', ''/w/script.js''] None)
                \<lparr>version := \<lparr>pv_major = 1, pv_minor = 7, pv_patch = 0\<rparr>\<rparr>\<rparr>))))
   \<and> bootstrap (ex_host [''/r/package.json'', ''/r/modules/cli.js'', ''/w/script.js''] [''/r''])
          ((ex_world [''--casper-path=/r'', ''--cli'', ''/w/script.js''] None [''/r/modules/cli.js''])
             \<lparr>phantom_obj := (ex_phantom [''--casper-path=/r'', ''--cli'', ''/w/script.js''] None)
                \<lparr>casperLoaded := True\<rparr>\<rparr>)
       = ((ex_world [''--casper-path=/r'', ''--cli'', ''/w/script.js''] None [''/r/modules/cli.js''])
             \<lparr>phantom_obj := (ex_phantom [''--casper-path=/r'', ''--cli'', ''/w/script.js''] None)
                \<lparr>casperLoaded := True\<rparr>\<rparr>, Running)"
proof -
  let ?H = "ex_host [''/r/package.json'', ''/r/modules/cli.js'', ''/w/script.js''] [''/r'']"
  let ?W = "ex_world [''--casper-path=/r'', ''--cli'', ''/w/script.js''] None [''/r/modules/cli.js'']"
  let ?L = "?W\<lparr>phantom_obj := (ex_phantom [''--casper-path=/r'', ''--cli'', ''/w/script.js''] None)
                \<lparr>casperLoaded := True\<rparr>\<rparr>"
  have a: "\<not> casperLoaded (phantom_obj ?W)"
    by (simp add: ex_world_def ex_phantom_def)
  have b: "casperLoaded (phantom_obj (fst (bootstrap ?H ?W)))"
    by code_simp
  have f: "host_fs ?H = ex_fs [''/r/package.json'', ''/r/modules/cli.js'', ''/w/script.js''] [''/r'']"
    by (simp add: ex_host_def)
  have g: "global_require ?W = ex_loader [''/r/modules/cli.js'']"
    by (simp add: ex_world_def)
  have l: "casperLoaded (phantom_obj ?L)" by simp
  have d: "casperLoaded (phantom_obj (fst (bootstrap (ex_host [''/r/package.json'', ''/r/modules/cli.js''] [''/r''])
          (ex_world [''--casper-path=/r'', ''--cli'', ''nofile.js''] None [''/r/modules/cli.js'']))))"
    by code_simp
  have e: "console (fst (bootstrap (ex_host [''/r/package.json'', ''/r/modules/cli.js''] [''/r''])
          (ex_world [''--casper-path=/r'', ''--cli'', ''nofile.js''] None [''/r/modules/cli.js''])))
       = [ConsoleError ''Unable to open file: nofile.js'', PhantomExit 1, InjectJs ''nofile.js'',
          ConsoleError ''Unable to load script nofile.js; check file syntax'', PhantomExit 1]"
    by code_simp
  have v: "casperLoaded (phantom_obj (fst (bootstrap ?H
          (?W\<lparr>phantom_obj := (ex_phantom [''--casper-path=/r'', ''--cli'', ''/w/script.js''] None)
                \<lparr>version := \<lparr>pv_major = 1, pv_minor = 7, pv_patch = 0\<rparr>\<rparr>\<rparr>))))"
    by code_simp
  from bootstrap_at_most_once [of ?W ?H "ex_host [] []"] bootstrap_at_most_once [of ?L ?H ?H] a b l d e v
  show ?thesis
    unfolding f g by blast
qed

end
